theory Spec2Isabelle
  imports Main "HOL-Library.Multiset"
begin

section \<open>Strings, exceptions and the outside world\<close>

text \<open>
  A Python \<open>str\<close> is a sequence of Unicode code points, so a path is a list of code
  points (\<open>nat\<close>), not of bytes. \<open>ustr\<close> writes an ASCII literal as such a list. An
  exception is carried as its message (\<open>repr(e)\<close> or \<open>str(e)\<close>).
\<close>

type_synonym ustring = "nat list"
type_synonym exn = ustring

definition ustr :: "string \<Rightarrow> ustring" where
  "ustr s = map of_char s"

definition startswith :: "ustring \<Rightarrow> ustring \<Rightarrow> bool" where
  "startswith s pre = (take (length pre) s = pre)"

text \<open>\<open>str.rfind\<close> of a single character: the highest index, or \<open>-1\<close>.\<close>

definition rfind :: "ustring \<Rightarrow> nat \<Rightarrow> int" where
  "rfind p c =
     (if c \<in> set p then int (length p) - 1 - int (length (takeWhile (\<lambda>x. x \<noteq> c) (rev p)))
      else - 1)"

text \<open>
  \<open>str.rstrip(chars)\<close> drops characters of \<open>chars\<close> from the end for as long as the
  last character is one of them.
\<close>

function rstrip :: "ustring \<Rightarrow> ustring \<Rightarrow> ustring" where
  "rstrip chars s = (if s \<noteq> [] \<and> last s \<in> set chars then rstrip chars (butlast s) else s)"
  by pat_completeness auto
termination
  by (relation "measure (\<lambda>(chars, s). length s)") auto

text \<open>
  \<open>str.isalnum\<close> of one character. On ASCII it is the digits and the letters; beyond
  ASCII it is a lookup in the Unicode character database, which is not part of the
  repository and is the parameter \<open>uni_alnum\<close> of the platform.

  The flavour of \<open>os.path\<close> is a parameter too: \<open>basename\<close> is \<open>os.path.basename\<close>,
  \<open>sep\<close> and \<open>altsep\<close> are the separators \<open>os.path.splitext\<close> looks for, and
  \<open>path_join\<close> is \<open>os.path.join\<close> of two components.
\<close>

record platform =
  basename :: "ustring \<Rightarrow> ustring"
  sep :: nat
  altsep :: "nat option"
  path_join :: "ustring \<Rightarrow> ustring \<Rightarrow> ustring"
  uni_alnum :: "nat \<Rightarrow> bool"

definition isalnum :: "platform \<Rightarrow> nat \<Rightarrow> bool" where
  "isalnum pf c =
     (if c < 128 then (48 \<le> c \<and> c \<le> 57) \<or> (65 \<le> c \<and> c \<le> 90) \<or> (97 \<le> c \<and> c \<le> 122)
      else uni_alnum pf c)"

text \<open>
  The images that Pillow decodes: a mode tag, the size, and the pixels in raster order,
  each pixel the list of its band values (\<open>[r, g, b, a]\<close> for \<open>RGBA\<close>, \<open>[l, a]\<close>
  for \<open>LA\<close>). Pillow is outside the repository. Its \<open>convert\<close> is a parameter, and so
  is the function \<open>blend\<close> that \<open>paste\<close> applies to each pixel: \<open>blend m d s\<close> mixes
  the source pixel \<open>s\<close> into the destination pixel \<open>d\<close> under the mask value \<open>m\<close>.
\<close>

type_synonym pixel = "nat list"

record image =
  im_mode :: string
  im_size :: "nat \<times> nat"
  im_pixels :: "pixel list"

record pil =
  convert :: "image \<Rightarrow> string \<Rightarrow> image"
  blend :: "nat \<Rightarrow> pixel \<Rightarrow> pixel \<Rightarrow> pixel"

text \<open>
  What the operating system, the file system and the libraries answer during a run:
  \<open>abspath\<close> is \<open>os.path.abspath\<close> (\<open>Inl\<close> when it raises), \<open>cpu_count\<close> is
  \<open>os.cpu_count()\<close> (\<open>None\<close> when the count cannot be determined), \<open>path_exists\<close> is
  \<open>os.path.exists\<close>, \<open>makedirs\<close> is \<open>os.makedirs(_, exist_ok=True)\<close>,
  \<open>image_open\<close> is the decoding of a source file and \<open>image_save\<close> the JPEG encoding
  to a path, \<open>import_deepzoom\<close> is the outcome of \<open>from deepzoom import ImageCreator\<close>
  (\<open>None\<close> when the backend is installed, the exception otherwise),
  \<open>eager_annotations\<close> says whether the interpreter evaluates the annotations of a
  \<open>def\<close> when the \<open>def\<close> is executed (CPython up to 3.13 does; from 3.14 on they are
  evaluated on demand), \<open>as_uri\<close> is \<open>Path(_).as_uri()\<close>, \<open>url_quote\<close> is \<open>urllib.parse.quote\<close>,
  \<open>dz_create\<close> is \<open>ImageCreator.create\<close> and \<open>write_log\<close> the writing of the run
  log (version 8). An operation that can raise answers with the exception
  (\<open>Inl e\<close>, \<open>Some e\<close>). Printing to the console, the Tk variables and the clock are
  taken not to raise, and elapsed times are left out.
\<close>

record world =
  abspath :: "ustring \<Rightarrow> exn + ustring"
  cpu_count :: "nat option"
  path_exists :: "ustring \<Rightarrow> bool"
  makedirs :: "ustring \<Rightarrow> exn option"
  image_open :: "ustring \<Rightarrow> exn + image"
  image_save :: "image \<Rightarrow> ustring \<Rightarrow> exn option"
  import_deepzoom :: "exn option"
  eager_annotations :: bool
  as_uri :: "ustring \<Rightarrow> exn + ustring"
  url_quote :: "ustring \<Rightarrow> ustring"
  dz_create :: "ustring \<Rightarrow> ustring \<Rightarrow> exn option"
  write_log :: "exn option"

section \<open>Helpers\<close>

text \<open>
  The flag of the backend, set when the module is loaded, in both versions:
  \<^verbatim>\<open>
  try:
      from deepzoom import ImageCreator
      HAS_DEEPZOOM = True
  except Exception:
      HAS_DEEPZOOM = False
  \<close>
\<close>

definition has_deepzoom :: "world \<Rightarrow> bool" where
  "has_deepzoom w = (import_deepzoom w = None)"

text \<open>
  \<^verbatim>\<open>
  def path_to_file_uri(p):
      p_abs = os.path.abspath(p)
      if p_abs.startswith("\\\\"):
          return "file://" + quote(p_abs[2:].replace("\\", "/"))
      return Path(p_abs).as_uri()
  \<close>
  Code point 92 is the backslash, 47 the slash.
\<close>

definition path_to_file_uri :: "world \<Rightarrow> ustring \<Rightarrow> exn + ustring" where
  "path_to_file_uri w p =
     (case abspath w p of
        Inl e \<Rightarrow> Inl e
      | Inr p_abs \<Rightarrow>
          if startswith p_abs [92, 92]
          then Inr (ustr ''file://'' @ url_quote w (map (\<lambda>c. if c = 92 then 47 else c) (drop 2 p_abs)))
          else as_uri w p_abs)"

text \<open>
  \<open>os.path.splitext\<close> (\<open>genericpath._splitext\<close>): the extension starts at the last
  dot, when that dot comes after the last separator and some character between the
  separator and the dot is not a dot. The loop that skips the leading dots:
  \<^verbatim>\<open>
  while filenameIndex < dotIndex:
      if p[filenameIndex:filenameIndex+1] != extsep:
          return p[:dotIndex], p[dotIndex:]
      filenameIndex += 1
  return p, p[:0]
  \<close>
\<close>

function name_before_dot :: "ustring \<Rightarrow> nat \<Rightarrow> nat \<Rightarrow> bool" where
  "name_before_dot p filenameIndex dotIndex =
     (if filenameIndex < dotIndex
      then (if p ! filenameIndex \<noteq> 46 then True
            else name_before_dot p (filenameIndex + 1) dotIndex)
      else False)"
  by pat_completeness auto
termination
  by (relation "measure (\<lambda>(p, i, d). d - i)") auto

definition splitext :: "platform \<Rightarrow> ustring \<Rightarrow> ustring \<times> ustring" where
  "splitext pf p =
     (let sepIndex = rfind p (sep pf);
          sepIndex = (case altsep pf of None \<Rightarrow> sepIndex | Some a \<Rightarrow> max sepIndex (rfind p a));
          dotIndex = rfind p 46
      in if dotIndex > sepIndex \<and> name_before_dot p (nat (sepIndex + 1)) (nat dotIndex)
         then (take (nat dotIndex) p, drop (nat dotIndex) p)
         else (p, []))"

text \<open>\<^verbatim>\<open>def _basename_no_ext(path): return os.path.splitext(os.path.basename(path))[0]\<close>\<close>

definition basename_no_ext :: "platform \<Rightarrow> ustring \<Rightarrow> ustring" where
  "basename_no_ext pf path = fst (splitext pf (basename pf path))"

section \<open>Path classifier and worker-count selector\<close>

text \<open>
  \<^verbatim>\<open>
  def _is_unc(p):
      try:
          return os.path.abspath(p).startswith("\\\\")
      except Exception:
          return False
  \<close>
  The same in both versions (version 8 writes a bare \<open>except:\<close>). What
  \<open>os.path.abspath\<close> raises on a string is an \<open>Exception\<close>, which both handlers
  catch; \<open>str.startswith\<close> does not raise.
\<close>

definition is_unc :: "world \<Rightarrow> ustring \<Rightarrow> bool" where
  "is_unc w p =
     (case abspath w p of
        Inl e \<Rightarrow> False
      | Inr p_abs \<Rightarrow> startswith p_abs [92, 92])"

text \<open>\<open>os.cpu_count() or 4\<close>: Python's \<open>or\<close> takes 4 for \<open>None\<close> and for 0.\<close>

definition cores_or_4 :: "world \<Rightarrow> nat" where
  "cores_or_4 w = (case cpu_count w of None \<Rightarrow> 4 | Some c \<Rightarrow> if c = 0 then 4 else c)"

text \<open>
  Version 7:
  \<^verbatim>\<open>
  if not files: return 1
  if _is_unc(out_dir) or any(_is_unc(f) for f in files): w = 1
  else:
      cores = os.cpu_count() or 4
      w = max(1, cores // 2)
      w = min(w, len(files))
  print(f"[Auto Workers] Using {w} worker(s) ...")
  return w
  \<close>
  The function is the value returned; the line it prints is written to the console by
  its caller, \<open>create_deepzoom_v7\<close>.
\<close>

definition auto_workers_v7 :: "world \<Rightarrow> ustring list \<Rightarrow> ustring \<Rightarrow> nat" where
  "auto_workers_v7 w files out_dir =
     (if files = [] then 1
      else if is_unc w out_dir \<or> list_ex (is_unc w) files then 1
      else let cores = cores_or_4 w;
               n = max 1 (cores div 2)
           in min n (length files))"

text \<open>
  Version 8:
  \<^verbatim>\<open>
  if not files: return 1
  if _is_unc(out_dir) or any(_is_unc(f) for f in files): return 1
  cores = os.cpu_count() or 4
  return max(1, min(len(files), cores // 2))
  \<close>
\<close>

definition auto_workers_v8 :: "world \<Rightarrow> ustring list \<Rightarrow> ustring \<Rightarrow> nat" where
  "auto_workers_v8 w files out_dir =
     (if files = [] then 1
      else if is_unc w out_dir \<or> list_ex (is_unc w) files then 1
      else let cores = cores_or_4 w
           in max 1 (min (length files) (cores div 2)))"

section \<open>Name sanitizer\<close>

text \<open>
  The two lines of \<open>save_jpeg.worker\<close>, the same in both versions:
  \<^verbatim>\<open>
  base = _basename_no_ext(src).rstrip(". ")
  safe = "".join(c if c.isalnum() or c in "._- " else "_" for c in base)
  \<close>
\<close>

definition sanitize :: "platform \<Rightarrow> ustring \<Rightarrow> ustring" where
  "sanitize pf src =
     (let base = rstrip (ustr ''. '') (basename_no_ext pf src)
      in concat (map (\<lambda>c. if isalnum pf c \<or> c \<in> set (ustr ''._- '') then [c] else ustr ''_'') base))"

text \<open>
  The sanitizer as the specification words it: take the filename without its
  extension; strip trailing periods (46) and spaces (32); replace every character that
  is not alphanumeric, a period, an underscore (95), a hyphen (45) or a space with an
  underscore.
\<close>

definition sanitize_spec :: "platform \<Rightarrow> ustring \<Rightarrow> ustring" where
  "sanitize_spec pf path =
     map (\<lambda>c. if isalnum pf c \<or> c = 46 \<or> c = 95 \<or> c = 45 \<or> c = 32 then c else 95)
       (rev (dropWhile (\<lambda>c. c = 46 \<or> c = 32) (rev (basename_no_ext pf path))))"

text \<open>The control characters of Unicode (category Cc): U+0000-001F and U+007F-009F.\<close>

definition is_control :: "nat \<Rightarrow> bool" where
  "is_control c = (c < 32 \<or> (127 \<le> c \<and> c < 160))"

section \<open>Format normalizer\<close>

text \<open>
  \<open>Image.new(mode, size, colour)\<close> fills every pixel with the colour;
  \<open>img.split()[-1]\<close> is the last band as an \<open>L\<close> image; \<open>bg.paste(im, mask=m)\<close>
  with no box pastes at the origin and replaces each pixel of \<open>bg\<close> by the blend of
  the pixel of \<open>im\<close> into it under the mask's value there.
\<close>

definition image_new :: "string \<Rightarrow> nat \<times> nat \<Rightarrow> pixel \<Rightarrow> image" where
  "image_new m sz colour =
     \<lparr>im_mode = m, im_size = sz, im_pixels = replicate (fst sz * snd sz) colour\<rparr>"

definition split_last :: "image \<Rightarrow> image" where
  "split_last img =
     \<lparr>im_mode = ''L'', im_size = im_size img, im_pixels = map (\<lambda>p. [last p]) (im_pixels img)\<rparr>"

definition paste :: "pil \<Rightarrow> image \<Rightarrow> image \<Rightarrow> image \<Rightarrow> image" where
  "paste lib bg im msk =
     bg\<lparr>im_pixels :=
          map (\<lambda>(d, s, m). blend lib (hd m) d s)
            (zip (im_pixels bg) (zip (im_pixels im) (im_pixels msk)))\<rparr>"

text \<open>
  Version 7:
  \<^verbatim>\<open>
  def _ensure_rgb(img):
      if img.mode in ("RGBA", "LA"):
          bg = Image.new("RGB", img.size, (255, 255, 255))
          bg.paste(img, mask=img.split()[-1])
          return bg
      if img.mode == "P":
          return img.convert("RGB")
      if img.mode != "RGB":
          return img.convert("RGB")
      return img
  \<close>
\<close>

definition ensure_rgb_v7 :: "pil \<Rightarrow> image \<Rightarrow> image" where
  "ensure_rgb_v7 lib img =
     (if im_mode img \<in> set [''RGBA'', ''LA'']
      then let bg = image_new ''RGB'' (im_size img) [255, 255, 255]
           in paste lib bg img (split_last img)
      else if im_mode img = ''P'' then convert lib img ''RGB''
      else if im_mode img \<noteq> ''RGB'' then convert lib img ''RGB''
      else img)"

text \<open>
  Version 8 joins the two conversions:
  \<^verbatim>\<open>
      if img.mode == "P" or img.mode != "RGB":
          return img.convert("RGB")
      return img
  \<close>
\<close>

definition ensure_rgb_v8 :: "pil \<Rightarrow> image \<Rightarrow> image" where
  "ensure_rgb_v8 lib img =
     (if im_mode img \<in> set [''RGBA'', ''LA'']
      then let bg = image_new ''RGB'' (im_size img) [255, 255, 255]
           in paste lib bg img (split_last img)
      else if im_mode img = ''P'' \<or> im_mode img \<noteq> ''RGB'' then convert lib img ''RGB''
      else img)"

section \<open>The application state\<close>

text \<open>
  The module's global state: the selection, the output folder and the Tk variables the
  two batch operations write. \<open>progress_hist\<close> lists every value written to
  \<open>progress_var\<close>, in order; \<open>console\<close> lists the lines printed, one constructor for
  each kind of line; \<open>dialogs\<close> lists the message boxes shown (title and the counters
  shown); \<open>pools\<close> lists every \<open>ThreadPoolExecutor\<close> created, as its \<open>max_workers\<close>
  and the number of tasks submitted to it. \<open>status_jpeg\<close> and \<open>status_dz\<close> hold the
  count the status string shows. The background driver is run to its end: a state
  after an operation is the state once the batch has finished and the callbacks it
  scheduled with \<open>root.after\<close> have run, in the order they were scheduled.
\<close>

datatype line =
    Log_skipped ustring
  | Log_debug ustring
  | Log_saved ustring
  | Log_created ustring
  | Log_error ustring exn
  | Log_auto_workers nat
  | Log_workers nat
  | Log_done "nat list"

datatype dialog = Show_error string | Show_info string "nat list"

record app =
  input_files :: "ustring list"
  output_dir :: ustring
  progress_var :: nat
  progress_max :: nat
  progress_hist :: "nat list"
  status_jpeg :: "nat option"
  status_dz :: "nat option"
  busy :: bool
  console :: "line list"
  dialogs :: "dialog list"
  pools :: "(nat \<times> nat) list"

definition print_line :: "line \<Rightarrow> app \<Rightarrow> app" where
  "print_line l a = a\<lparr>console := console a @ [l]\<rparr>"

definition set_progress :: "nat \<Rightarrow> app \<Rightarrow> app" where
  "set_progress v a = a\<lparr>progress_var := v, progress_hist := progress_hist a @ [v]\<rparr>"

definition show_dialog :: "dialog \<Rightarrow> app \<Rightarrow> app" where
  "show_dialog d a = a\<lparr>dialogs := dialogs a @ [d]\<rparr>"

definition submit_pool :: "nat \<Rightarrow> nat \<Rightarrow> app \<Rightarrow> app" where
  "submit_pool max_workers tasks a = a\<lparr>pools := pools a @ [(max_workers, tasks)]\<rparr>"

section \<open>JPEG conversion\<close>

record jpeg_tally =
  converted :: nat
  errors :: nat

text \<open>
  Version 7, the body of the loop of \<open>save_jpeg.worker\<close> up to the progress update:
  \<^verbatim>\<open>
  try:
      if not os.path.exists(src):
          print(f"[Save JPEG] Skipped (not found): {src}")
          errors += 1
      else:
          base = _basename_no_ext(src).rstrip(". ")
          safe = "".join(...)
          out_path = os.path.join(output_dir.get(), f"{safe}.jpg")
          print("[DEBUG] Saving:", out_path)
          with Image.open(src) as im:
              ...
              im = _ensure_rgb(im)
              im.save(out_path, "JPEG", ...)
          converted += 1
          print(f"[Save JPEG] Saved: {out_path}  ({dt:.2f}s)")
  except Exception as e:
      errors += 1
      print(f"[Save JPEG] Error converting {src}: {repr(e)}")
  \<close>
  \<open>image_open\<close> stands for \<open>Image.open\<close> with the guarded \<open>im.seek(0)\<close>; a decoding
  failure that Pillow raises late, inside \<open>_ensure_rgb\<close>, is counted with it. Any
  exception of the \<open>else\<close> branch ends in the handler, which counts one error.
\<close>

definition jpeg_file_v7 ::
  "platform \<Rightarrow> world \<Rightarrow> pil \<Rightarrow> ustring \<Rightarrow> jpeg_tally \<Rightarrow> app \<Rightarrow> jpeg_tally \<times> app" where
  "jpeg_file_v7 pf w lib src t a =
     (if \<not> path_exists w src
      then (t\<lparr>errors := errors t + 1\<rparr>, print_line (Log_skipped src) a)
      else let safe = sanitize pf src;
               out_path = path_join pf (output_dir a) (safe @ ustr ''.jpg'');
               a = print_line (Log_debug out_path) a
           in case image_open w src of
                Inl e \<Rightarrow> (t\<lparr>errors := errors t + 1\<rparr>, print_line (Log_error src e) a)
              | Inr im \<Rightarrow>
                  (case image_save w (ensure_rgb_v7 lib im) out_path of
                     Some e \<Rightarrow> (t\<lparr>errors := errors t + 1\<rparr>, print_line (Log_error src e) a)
                   | None \<Rightarrow>
                       (t\<lparr>converted := converted t + 1\<rparr>, print_line (Log_saved out_path) a)))"

text \<open>
  \<^verbatim>\<open>
  for i, src in enumerate(input_files, 1):
      try: ... except ...
      root.after(0, lambda val=i: progress_var.set(val))
  \<close>
\<close>

fun jpeg_loop_v7 ::
  "platform \<Rightarrow> world \<Rightarrow> pil \<Rightarrow> nat \<Rightarrow> ustring list \<Rightarrow> jpeg_tally \<Rightarrow> app \<Rightarrow> jpeg_tally \<times> app" where
  "jpeg_loop_v7 pf w lib i [] t a = (t, a)"
| "jpeg_loop_v7 pf w lib i (src # rest) t a =
     (case jpeg_file_v7 pf w lib src t a of
        (t', a') \<Rightarrow> jpeg_loop_v7 pf w lib (i + 1) rest t' (set_progress i a'))"

definition save_jpeg_worker_v7 :: "platform \<Rightarrow> world \<Rightarrow> pil \<Rightarrow> app \<Rightarrow> jpeg_tally \<times> app" where
  "save_jpeg_worker_v7 pf w lib a =
     (case jpeg_loop_v7 pf w lib 1 (input_files a) \<lparr>converted = 0, errors = 0\<rparr> a of
        (t, a) \<Rightarrow>
          let a = print_line (Log_done [converted t, errors t]) a;
              a = a\<lparr>status_jpeg := Some (converted t)\<rparr>;
              a = a\<lparr>busy := False\<rparr>;
              a = show_dialog (Show_info ''Done'' [converted t, errors t]) a
          in (t, a))"

text \<open>
  \<^verbatim>\<open>
  def save_jpeg():
      if not input_files or not output_dir.get():
          messagebox.showerror("Missing input", ...); return
      os.makedirs(output_dir.get(), exist_ok=True)
      total = len(input_files)
      progress_max.set(total); progress_var.set(0); elapsed_total.set("")
      _set_busy(True)
      def worker(): ...
      ThreadPoolExecutor(max_workers=1).submit(worker)
  \<close>
\<close>

definition save_jpeg_v7 :: "platform \<Rightarrow> world \<Rightarrow> pil \<Rightarrow> app \<Rightarrow> exn + app" where
  "save_jpeg_v7 pf w lib a =
     (if input_files a = [] \<or> output_dir a = []
      then Inr (show_dialog (Show_error ''Missing input'') a)
      else case makedirs w (output_dir a) of
             Some e \<Rightarrow> Inl e
           | None \<Rightarrow>
               let total = length (input_files a);
                   a = a\<lparr>progress_max := total\<rparr>;
                   a = set_progress 0 a;
                   a = a\<lparr>busy := True\<rparr>;
                   a = submit_pool 1 1 a
               in Inr (snd (save_jpeg_worker_v7 pf w lib a)))"

text \<open>
  Version 8. A missing file leaves the loop body with \<open>continue\<close>, before the progress
  update at the end of the body:
  \<^verbatim>\<open>
  for i, src in enumerate(input_files, 1):
      try:
          if not os.path.exists(src):
              print(f"[JPEG] Skipped missing: {src}")
              errors += 1
              continue
          base = ...; safe = ...; out_path = ...
          with Image.open(src) as im:
              ...
              im = _ensure_rgb(im)
              im.save(out_path, "JPEG", ...)
          print(f"[JPEG] Saved: {out_path}")
          converted += 1
      except Exception as e:
          errors += 1
          print(f"[JPEG] Error: {src} => {e}")
      root.after(0, update_progress, i)
  \<close>
\<close>

definition jpeg_convert_v8 ::
  "platform \<Rightarrow> world \<Rightarrow> pil \<Rightarrow> ustring \<Rightarrow> jpeg_tally \<Rightarrow> app \<Rightarrow> jpeg_tally \<times> app" where
  "jpeg_convert_v8 pf w lib src t a =
     (let safe = sanitize pf src;
          out_path = path_join pf (output_dir a) (safe @ ustr ''.jpg'')
      in case image_open w src of
           Inl e \<Rightarrow> (t\<lparr>errors := errors t + 1\<rparr>, print_line (Log_error src e) a)
         | Inr im \<Rightarrow>
             (case image_save w (ensure_rgb_v8 lib im) out_path of
                Some e \<Rightarrow> (t\<lparr>errors := errors t + 1\<rparr>, print_line (Log_error src e) a)
              | None \<Rightarrow>
                  (t\<lparr>converted := converted t + 1\<rparr>, print_line (Log_saved out_path) a)))"

fun jpeg_loop_v8 ::
  "platform \<Rightarrow> world \<Rightarrow> pil \<Rightarrow> nat \<Rightarrow> ustring list \<Rightarrow> jpeg_tally \<Rightarrow> app \<Rightarrow> jpeg_tally \<times> app" where
  "jpeg_loop_v8 pf w lib i [] t a = (t, a)"
| "jpeg_loop_v8 pf w lib i (src # rest) t a =
     (if \<not> path_exists w src
      then jpeg_loop_v8 pf w lib (i + 1) rest (t\<lparr>errors := errors t + 1\<rparr>)
             (print_line (Log_skipped src) a)
      else case jpeg_convert_v8 pf w lib src t a of
             (t', a') \<Rightarrow> jpeg_loop_v8 pf w lib (i + 1) rest t' (set_progress i a'))"

text \<open>
  After the loop version 8 prints the totals, writes the run log and schedules the
  dialog; a failure to write the log ends the worker before the dialog. Version 8 has
  no busy guard and sets no status string; it also sets the maximum of the progress
  bar widget, which is \<open>progress_max\<close> here.
\<close>

definition save_jpeg_worker_v8 :: "platform \<Rightarrow> world \<Rightarrow> pil \<Rightarrow> app \<Rightarrow> jpeg_tally \<times> app" where
  "save_jpeg_worker_v8 pf w lib a =
     (case jpeg_loop_v8 pf w lib 1 (input_files a) \<lparr>converted = 0, errors = 0\<rparr> a of
        (t, a) \<Rightarrow>
          let a = print_line (Log_done [converted t, errors t]) a
          in case write_log w of
               Some e \<Rightarrow> (t, a)
             | None \<Rightarrow> (t, show_dialog (Show_info ''tif converted to jpeg'' [converted t, errors t]) a))"

definition save_jpeg_v8 :: "platform \<Rightarrow> world \<Rightarrow> pil \<Rightarrow> app \<Rightarrow> exn + app" where
  "save_jpeg_v8 pf w lib a =
     (if input_files a = [] \<or> output_dir a = []
      then Inr (show_dialog (Show_error ''Missing input'') a)
      else case makedirs w (output_dir a) of
             Some e \<Rightarrow> Inl e
           | None \<Rightarrow>
               let a = a\<lparr>progress_max := length (input_files a)\<rparr>;
                   a = set_progress 0 a;
                   a = submit_pool 1 1 a
               in Inr (snd (save_jpeg_worker_v8 pf w lib a)))"

section \<open>DeepZoom conversion\<close>

text \<open>
  An outcome of a job of version 7 is the tuple \<open>(status, src, dt, info)\<close>, without
  the elapsed time. Constructing the \<open>ImageCreator\<close> only stores the fixed settings and
  is taken not to raise.
  \<^verbatim>\<open>
  def _dz_convert_one(src, outdir, creator):
      if not os.path.exists(src):
          return ("skip", src, 0.0, "not found")
      base = _basename_no_ext(src)
      dzi_path = os.path.join(outdir, f"{base}.dzi")
      src_uri = path_to_file_uri(src)
      creator.create(src_uri, dzi_path)
      return ("ok", src, dt, dzi_path)
  \<close>
\<close>

type_synonym outcome = "string \<times> ustring \<times> ustring"

definition dz_convert_one_v7 :: "platform \<Rightarrow> world \<Rightarrow> ustring \<Rightarrow> ustring \<Rightarrow> exn + outcome" where
  "dz_convert_one_v7 pf w src outdir =
     (if \<not> path_exists w src then Inr (''skip'', src, ustr ''not found'')
      else let base = basename_no_ext pf src;
               dzi_path = path_join pf outdir (base @ ustr ''.dzi'')
           in case path_to_file_uri w src of
                Inl e \<Rightarrow> Inl e
              | Inr src_uri \<Rightarrow>
                  (case dz_create w src_uri dzi_path of
                     Some e \<Rightarrow> Inl e
                   | None \<Rightarrow> Inr (''ok'', src, dzi_path)))"

text \<open>
  \<^verbatim>\<open>
  def job(src):
      try:
          creator = _dz_make_creator()
          return _dz_convert_one(src, output_dir.get(), creator)
      except Exception as e:
          return ("err", src, 0.0, str(e))
  \<close>
\<close>

definition job_v7 :: "platform \<Rightarrow> world \<Rightarrow> ustring \<Rightarrow> ustring \<Rightarrow> outcome" where
  "job_v7 pf w outdir src =
     (case dz_convert_one_v7 pf w src outdir of
        Inl e \<Rightarrow> (''err'', src, e)
      | Inr r \<Rightarrow> r)"

record dz_tally =
  created :: nat
  skipped :: nat
  dz_errors :: nat

text \<open>
  The collecting loop of \<open>run_parallel\<close>, over the outcomes in the order in which
  \<open>as_completed\<close> yields them:
  \<^verbatim>\<open>
  for fut in as_completed(futures):
      status, src, dt, info = fut.result()
      done_count += 1
      if status == "ok":
          created += 1;  print(f"[DeepZoom] Created: {info} ...")
      elif status == "skip":
          skipped += 1;  print(f"[DeepZoom] Skipped (not found): {src}")
      else:
          errors += 1;   print(f"[DeepZoom] Error: {src}\n  -> {info}")
      root.after(0, lambda val=done_count: progress_var.set(val))
  \<close>
\<close>

fun dz_collect_v7 :: "outcome list \<Rightarrow> nat \<Rightarrow> dz_tally \<Rightarrow> app \<Rightarrow> dz_tally \<times> app" where
  "dz_collect_v7 [] done_count t a = (t, a)"
| "dz_collect_v7 ((status, src, info) # rest) done_count t a =
     (let done_count = done_count + 1;
          (t, a) =
            (if status = ''ok''
             then (t\<lparr>created := created t + 1\<rparr>, print_line (Log_created info) a)
             else if status = ''skip''
             then (t\<lparr>skipped := skipped t + 1\<rparr>, print_line (Log_skipped src) a)
             else (t\<lparr>dz_errors := dz_errors t + 1\<rparr>, print_line (Log_error src info) a))
      in dz_collect_v7 rest done_count t (set_progress done_count a))"

text \<open>
  \<open>run_parallel\<close> opens a pool of \<open>workers\<close> threads and submits one job for each
  input file, in selection order. The order in which the jobs complete is not
  determined by the program: it is the parameter \<open>completion\<close>, the sources of the
  futures in the order \<open>as_completed\<close> yields them.
\<close>

definition run_parallel_v7 ::
  "platform \<Rightarrow> world \<Rightarrow> nat \<Rightarrow> ustring list \<Rightarrow> app \<Rightarrow> dz_tally \<times> app" where
  "run_parallel_v7 pf w workers completion a =
     (let a = print_line (Log_workers workers) a;
          a = submit_pool workers (length (input_files a)) a;
          results = map (job_v7 pf w (output_dir a)) completion
      in case dz_collect_v7 results 0 \<lparr>created = 0, skipped = 0, dz_errors = 0\<rparr> a of
           (t, a) \<Rightarrow>
             let a = print_line (Log_done [created t, skipped t, dz_errors t]) a;
                 a = a\<lparr>status_dz := Some (created t)\<rparr>;
                 a = a\<lparr>busy := False\<rparr>;
                 a = show_dialog
                       (Show_info ''DeepZoom Complete'' [created t, skipped t, dz_errors t]) a
             in (t, a))"

text \<open>
  \<^verbatim>\<open>
  def create_deepzoom():
      if not HAS_DEEPZOOM:
          messagebox.showerror("DeepZoom not available", ...); return
      if not input_files or not output_dir.get():
          messagebox.showerror("Missing input", ...); return
      os.makedirs(output_dir.get(), exist_ok=True)
      total = len(input_files)
      progress_max.set(total); progress_var.set(0); elapsed_total.set("")
      _set_busy(True)
      workers = _auto_workers(input_files, output_dir.get())
      def run_parallel(): ...
      ThreadPoolExecutor(max_workers=1).submit(run_parallel)
  \<close>
\<close>

definition create_deepzoom_v7 :: "platform \<Rightarrow> world \<Rightarrow> ustring list \<Rightarrow> app \<Rightarrow> exn + app" where
  "create_deepzoom_v7 pf w completion a =
     (if \<not> has_deepzoom w
      then Inr (show_dialog (Show_error ''DeepZoom not available'') a)
      else if input_files a = [] \<or> output_dir a = []
      then Inr (show_dialog (Show_error ''Missing input'') a)
      else case makedirs w (output_dir a) of
             Some e \<Rightarrow> Inl e
           | None \<Rightarrow>
               let total = length (input_files a);
                   a = a\<lparr>progress_max := total\<rparr>;
                   a = set_progress 0 a;
                   a = a\<lparr>busy := True\<rparr>;
                   workers = auto_workers_v7 w (input_files a) (output_dir a);
                   a = print_line (Log_auto_workers workers) a;
                   a = submit_pool 1 1 a
               in Inr (snd (run_parallel_v7 pf w workers completion a)))"

text \<open>
  Version 8 has no existence check and no pool of its own: one worker converts the
  files in a loop and counts the successes.
  \<^verbatim>\<open>
  def _dz_convert_one(src, outdir, creator):
      base = _basename_no_ext(src)
      src_uri = path_to_file_uri(src)
      dzi_path = os.path.join(outdir, f"{base}.dzi")
      creator.create(src_uri, dzi_path)
      return (src, time.perf_counter() - t0)
  \<close>
\<close>

definition dz_convert_one_v8 :: "platform \<Rightarrow> world \<Rightarrow> ustring \<Rightarrow> ustring \<Rightarrow> exn + ustring" where
  "dz_convert_one_v8 pf w src outdir =
     (let base = basename_no_ext pf src
      in case path_to_file_uri w src of
           Inl e \<Rightarrow> Inl e
         | Inr src_uri \<Rightarrow>
             (let dzi_path = path_join pf outdir (base @ ustr ''.dzi'')
              in case dz_create w src_uri dzi_path of
                   Some e \<Rightarrow> Inl e
                 | None \<Rightarrow> Inr src))"

text \<open>
  \<^verbatim>\<open>
  success = 0
  for i, src in enumerate(input_files, 1):
      try:
          _, dt = _dz_convert_one(src, output_dir.get(), creator)
          print(f"[DZI] Created: {_basename_no_ext(src)}.dzi ({dt:.2f}s)")
          success += 1
      except Exception as e:
          print(f"[DZI] Error: {src} => {e}")
      root.after(0, lambda val=i: progress_var.set(val))
  \<close>
\<close>

fun dz_loop_v8 ::
  "platform \<Rightarrow> world \<Rightarrow> nat \<Rightarrow> ustring list \<Rightarrow> nat \<Rightarrow> app \<Rightarrow> nat \<times> app" where
  "dz_loop_v8 pf w i [] success a = (success, a)"
| "dz_loop_v8 pf w i (src # rest) success a =
     (case dz_convert_one_v8 pf w src (output_dir a) of
        Inr r \<Rightarrow>
          dz_loop_v8 pf w (i + 1) rest (success + 1)
            (set_progress i (print_line (Log_created (basename_no_ext pf src @ ustr ''.dzi'')) a))
      | Inl e \<Rightarrow>
          dz_loop_v8 pf w (i + 1) rest success (set_progress i (print_line (Log_error src e) a)))"

definition create_deepzoom_worker_v8 :: "platform \<Rightarrow> world \<Rightarrow> app \<Rightarrow> nat \<times> app" where
  "create_deepzoom_worker_v8 pf w a =
     (case dz_loop_v8 pf w 1 (input_files a) 0 a of
        (success, a) \<Rightarrow>
          let a = print_line (Log_done [success]) a
          in case write_log w of
               Some e \<Rightarrow> (success, a)
             | None \<Rightarrow> (success, show_dialog (Show_info ''DZI creation done'' [success]) a))"

text \<open>
  \<^verbatim>\<open>
  def create_deepzoom():
      if not HAS_DEEPZOOM:
          messagebox.showerror("Missing", "Install 'deepzoom' package"); return
      if not input_files or not output_dir.get():
          messagebox.showerror("Missing input", ...); return
      os.makedirs(output_dir.get(), exist_ok=True)
      progress_max.set(len(input_files)); progress_var.set(0)
      def worker(): ...
      ThreadPoolExecutor(max_workers=1).submit(worker)
  \<close>
\<close>

definition create_deepzoom_v8 :: "platform \<Rightarrow> world \<Rightarrow> app \<Rightarrow> exn + app" where
  "create_deepzoom_v8 pf w a =
     (if \<not> has_deepzoom w
      then Inr (show_dialog (Show_error ''Missing'') a)
      else if input_files a = [] \<or> output_dir a = []
      then Inr (show_dialog (Show_error ''Missing input'') a)
      else case makedirs w (output_dir a) of
             Some e \<Rightarrow> Inl e
           | None \<Rightarrow>
               let a = a\<lparr>progress_max := length (input_files a)\<rparr>;
                   a = set_progress 0 a;
                   a = submit_pool 1 1 a
               in Inr (snd (create_deepzoom_worker_v8 pf w a)))"

section \<open>Loading the module\<close>

text \<open>
  Both programs are scripts: the body of the module creates the Tk variables, executes
  the \<open>def\<close> statements and enters the main loop, from which the buttons call
  \<open>save_jpeg\<close> and \<open>create_deepzoom\<close>. The state before the first click has the same
  values in both versions (version 8 leaves the defaults \<open>""\<close> and \<open>0\<close> implicit; the
  welcome banner on the console is left out):
  \<^verbatim>\<open>
  input_files = []
  output_dir = tk.StringVar(value="")
  progress_var = tk.IntVar(value=0)
  progress_max = tk.IntVar(value=100)
  \<close>
\<close>

definition initial_app :: app where
  "initial_app =
     \<lparr>input_files = [], output_dir = [],
      progress_var = 0, progress_max = 100, progress_hist = [],
      status_jpeg = None, status_dz = None, busy = False,
      console = [], dialogs = [], pools = []\<rparr>"

text \<open>
  One of the \<open>def\<close> statements of the body names \<open>ImageCreator\<close> in an annotation
  (version 7, line 216; version 8, line 190; neither file imports \<open>annotations\<close> from
  \<open>__future__\<close>):
  \<^verbatim>\<open>
  def _dz_convert_one(src, outdir, creator: ImageCreator):
  \<close>
  An interpreter that evaluates annotations when it executes the \<open>def\<close> looks the name
  up there. The name is bound by the import of the backend only, so when that import
  has failed the \<open>def\<close> raises \<open>NameError\<close>, the exception leaves the module, and the
  main loop is never entered.
\<close>

definition load_module :: "world \<Rightarrow> exn + app" where
  "load_module w =
     (if \<not> has_deepzoom w \<and> eager_annotations w
      then Inl (ustr ''NameError: name ImageCreator is not defined'')
      else Inr initial_app)"

text \<open>
  The program from its start to the end of a DeepZoom batch: the module is loaded, the
  user picks the files and the output folder (\<open>choose_input\<close>, \<open>choose_output\<close>; the lines
  they print are left out) and clicks the DeepZoom button.
\<close>

definition run_create_deepzoom_v7 ::
  "platform \<Rightarrow> world \<Rightarrow> ustring list \<Rightarrow> ustring \<Rightarrow> ustring list \<Rightarrow> exn + app" where
  "run_create_deepzoom_v7 pf w files folder completion =
     (case load_module w of
        Inl e \<Rightarrow> Inl e
      | Inr a \<Rightarrow> create_deepzoom_v7 pf w completion (a\<lparr>input_files := files, output_dir := folder\<rparr>))"

definition run_create_deepzoom_v8 ::
  "platform \<Rightarrow> world \<Rightarrow> ustring list \<Rightarrow> ustring \<Rightarrow> exn + app" where
  "run_create_deepzoom_v8 pf w files folder =
     (case load_module w of
        Inl e \<Rightarrow> Inl e
      | Inr a \<Rightarrow> create_deepzoom_v8 pf w (a\<lparr>input_files := files, output_dir := folder\<rparr>))"

section \<open>Failures of a single file\<close>

text \<open>
  A genuine failure of the JPEG conversion of an existing file: the decoding of the
  source raises, or the encoding of the normalized image to the destination raises.
  A failure of the DeepZoom conversion: building the source URI raises, or the tiling
  backend does.
\<close>

definition jpeg_raises :: "platform \<Rightarrow> world \<Rightarrow> pil \<Rightarrow> ustring \<Rightarrow> ustring \<Rightarrow> bool" where
  "jpeg_raises pf w lib outdir src =
     (case image_open w src of
        Inl e \<Rightarrow> True
      | Inr im \<Rightarrow>
          image_save w (ensure_rgb_v7 lib im) (path_join pf outdir (sanitize pf src @ ustr ''.jpg''))
          \<noteq> None)"

definition dz_raises :: "platform \<Rightarrow> world \<Rightarrow> ustring \<Rightarrow> ustring \<Rightarrow> bool" where
  "dz_raises pf w outdir src =
     (case path_to_file_uri w src of
        Inl e \<Rightarrow> True
      | Inr src_uri \<Rightarrow>
          dz_create w src_uri (path_join pf outdir (basename_no_ext pf src @ ustr ''.dzi'')) \<noteq> None)"

section \<open>Concrete inputs\<close>

text \<open>
  A POSIX flavour of \<open>os.path\<close>: \<open>basename\<close> is what follows the last slash and
  \<open>join\<close> puts one slash between two components unless the second is absolute. The
  table lists the alphanumeric code points of the Latin-1 block.
\<close>

definition latin1_alnum :: "nat \<Rightarrow> bool" where
  "latin1_alnum c =
     (c \<in> set [170, 178, 179, 181, 185, 186, 188, 189, 190]
      \<or> (192 \<le> c \<and> c \<le> 214) \<or> (216 \<le> c \<and> c \<le> 246) \<or> (248 \<le> c \<and> c \<le> 255))"

definition posixpath :: platform where
  "posixpath =
     \<lparr>basename = (\<lambda>p. drop (nat (rfind p 47 + 1)) p),
      sep = 47,
      altsep = None,
      path_join = (\<lambda>a b. if startswith b [47] then b
                           else if a = [] \<or> last a = 47 then a @ b
                           else a @ [47] @ b),
      uni_alnum = latin1_alnum\<rparr>"

text \<open>
  A two-pixel \<open>RGBA\<close> image whose first pixel is fully transparent and whose second is
  opaque, and an imaging library that blends each band of the destination linearly
  with the same band of the source, and converts to three bands: the first three, or
  the first one three times.
\<close>

definition demo_image :: image where
  "demo_image = \<lparr>im_mode = ''RGBA'', im_size = (2, 1), im_pixels = [[10, 20, 30, 0], [40, 50, 60, 255]]\<rparr>"

definition demo_pil :: pil where
  "demo_pil =
     \<lparr>convert = (\<lambda>im m. im\<lparr>im_mode := m,
                           im_pixels := map (\<lambda>p. if length p < 3 then replicate 3 (hd p) else take 3 p)
                                          (im_pixels im)\<rparr>),
      blend = (\<lambda>m d s. map (\<lambda>(k, x). ((if k < length s then s ! k else 0) * m + x * (255 - m)) div 255)
                           (enumerate 0 d))\<rparr>"

text \<open>
  A host with 8 cores, the backend installed and an interpreter that evaluates
  annotations at the \<open>def\<close>, on which \<open>imgs/a.tif\<close> and \<open>imgs/b.tiff\<close> are good images,
  \<open>imgs/bad.tif\<close> exists and cannot be decoded nor tiled, and nothing else exists.
  \<open>abspath\<close> raises on an embedded NUL, keeps a path that starts with a slash or with
  two backslashes, and puts the working directory before any other path.
\<close>

definition demo_world :: world where
  "demo_world =
     \<lparr>abspath = (\<lambda>p. if 0 \<in> set p then Inl (ustr ''embedded null character'')
                      else if startswith p [47] \<or> startswith p [92, 92] then Inr p
                      else Inr (ustr ''/home/u/'' @ p)),
      cpu_count = Some 8,
      path_exists = (\<lambda>p. p \<in> set [ustr ''imgs/a.tif'', ustr ''imgs/b.tiff'', ustr ''imgs/bad.tif'']),
      makedirs = (\<lambda>d. None),
      image_open = (\<lambda>p. if p = ustr ''imgs/bad.tif'' then Inl (ustr ''cannot identify image file'')
                         else Inr demo_image),
      image_save = (\<lambda>im out. None),
      import_deepzoom = None,
      eager_annotations = True,
      as_uri = (\<lambda>p. Inr (ustr ''file://'' @ p)),
      url_quote = (\<lambda>p. p),
      dz_create = (\<lambda>uri out. if uri \<in> set [ustr ''file:///home/u/imgs/a.tif'',
                                             ustr ''file:///home/u/imgs/b.tiff'']
                               then None else Some (ustr ''cannot open source'')),
      write_log = None\<rparr>"

text \<open>The same host without the backend.\<close>

definition no_backend_world :: world where
  "no_backend_world = demo_world\<lparr>import_deepzoom := Some (ustr ''No module named deepzoom'')\<rparr>"

definition demo_app :: "ustring list \<Rightarrow> app" where
  "demo_app files =
     \<lparr>input_files = files, output_dir = ustr ''out'',
      progress_var = 0, progress_max = 100, progress_hist = [],
      status_jpeg = None, status_dz = None, busy = False,
      console = [], dialogs = [], pools = []\<rparr>"

section \<open>Properties of the classifier and the selector\<close>

lemma auto_workers_v7_v8: "auto_workers_v7 w files out_dir = auto_workers_v8 w files out_dir"
  by (cases files) (auto simp add: auto_workers_v7_def auto_workers_v8_def Let_def min_def max_def)

lemma auto_workers_v8_ge1: "1 \<le> auto_workers_v8 w files out_dir"
  by (simp add: auto_workers_v8_def Let_def)

lemma auto_workers_v8_le_length:
  "files \<noteq> [] \<Longrightarrow> auto_workers_v8 w files out_dir \<le> length files"
  by (cases files) (auto simp add: auto_workers_v8_def Let_def min_def max_def)

lemma auto_workers_v8_unc:
  "is_unc w out_dir \<or> (\<exists>f \<in> set files. is_unc w f) \<Longrightarrow> auto_workers_v8 w files out_dir = 1"
  by (simp add: auto_workers_v8_def list_ex_iff)

lemma auto_workers_v8_local:
  "files \<noteq> [] \<Longrightarrow> \<not> is_unc w out_dir \<Longrightarrow> \<forall>f \<in> set files. \<not> is_unc w f \<Longrightarrow>
   auto_workers_v8 w files out_dir = max 1 (min (length files) (cores_or_4 w div 2))"
  by (simp add: auto_workers_v8_def list_ex_iff Let_def)

lemma is_unc_cpu_count: "is_unc (w\<lparr>cpu_count := c\<rparr>) p = is_unc w p"
  by (simp add: is_unc_def)

lemma demo_is_unc:
  "is_unc demo_world [92, 92, 115, 92, 120] = True"
  "is_unc demo_world (ustr ''out'') = False"
  "is_unc demo_world (ustr ''imgs/a.tif'') = False"
  "is_unc demo_world (ustr ''imgs/b.tiff'') = False"
  "is_unc demo_world [97, 0, 98] = False"
  by (simp_all add: is_unc_def demo_world_def startswith_def ustr_def)

text \<open>
  C2. For every file list and output directory, in both versions, the selector returns 1
  on the empty list, returns 1 when the output directory or some input file is a UNC
  path, and otherwise returns \<open>max(1, min(len(files), cores // 2))\<close>, where \<open>cores\<close> is
  the core count that \<open>os.cpu_count()\<close> reports; the result is at least 1 and, on a
  non-empty list, at most \<open>len(files)\<close>.
\<close>

theorem C2_auto_workers:
  "auto_workers_v7 w files out_dir = auto_workers_v8 w files out_dir
   \<and> auto_workers_v8 w [] out_dir = 1
   \<and> (is_unc w out_dir \<or> (\<exists>f \<in> set files. is_unc w f) \<longrightarrow> auto_workers_v8 w files out_dir = 1)
   \<and> (files \<noteq> [] \<and> \<not> is_unc w out_dir \<and> (\<forall>f \<in> set files. \<not> is_unc w f) \<longrightarrow>
        auto_workers_v8 w files out_dir = max 1 (min (length files) (cores_or_4 w div 2)))
   \<and> (\<forall>c. cpu_count w = Some c \<and> 0 < c \<longrightarrow> cores_or_4 w = c)
   \<and> 1 \<le> auto_workers_v8 w files out_dir
   \<and> (files \<noteq> [] \<longrightarrow> auto_workers_v8 w files out_dir \<le> length files)"
proof -
  have cores: "\<forall>c. cpu_count w = Some c \<and> 0 < c \<longrightarrow> cores_or_4 w = c"
    by (simp add: cores_or_4_def)
  have empty: "auto_workers_v8 w [] out_dir = 1"
    by (simp add: auto_workers_v8_def)
  show ?thesis
    using cores empty auto_workers_v7_v8 [of w files out_dir]
      auto_workers_v8_unc [of w out_dir files] auto_workers_v8_local [of files w out_dir]
      auto_workers_v8_ge1 [of w files out_dir] auto_workers_v8_le_length [of files w out_dir]
    by blast
qed

theorem C2_auto_workers_witness:
  "auto_workers_v7 demo_world [ustr ''imgs/a.tif'', ustr ''imgs/b.tiff''] (ustr ''out'') = 2
   \<and> auto_workers_v8 demo_world [ustr ''imgs/a.tif'', ustr ''imgs/b.tiff''] (ustr ''out'') = 2
   \<and> cores_or_4 demo_world = 8
   \<and> auto_workers_v7 demo_world [ustr ''imgs/a.tif'', [92, 92, 115, 92, 120]] (ustr ''out'') = 1
   \<and> auto_workers_v8 demo_world [ustr ''imgs/a.tif'', [92, 92, 115, 92, 120]] (ustr ''out'') = 1"
proof -
  have c: "cpu_count demo_world = Some 8"
    by (simp add: demo_world_def)
  show ?thesis
    using C2_auto_workers [of demo_world "[ustr ''imgs/a.tif'', ustr ''imgs/b.tiff'']" "ustr ''out''"]
      C2_auto_workers [of demo_world "[ustr ''imgs/a.tif'', [92, 92, 115, 92, 120]]" "ustr ''out''"]
      c
    by (simp add: demo_is_unc)
qed

text \<open>
  C9. The path classifier has a Boolean answer for every string and every behaviour of
  \<open>os.path.abspath\<close>: when the resolution raises the answer is \<open>False\<close> (the path
  counts as local), and when it succeeds the answer is whether the resolved path starts
  with two backslashes. No exception leaves the function.
\<close>

theorem C9_is_unc_total:
  "(\<forall>e. abspath w p = Inl e \<longrightarrow> is_unc w p = False)
   \<and> (\<forall>q. abspath w p = Inr q \<longrightarrow> is_unc w p = startswith q [92, 92])"
  by (simp add: is_unc_def)

theorem C9_is_unc_total_witness:
  "abspath demo_world [97, 0, 98] = Inl (ustr ''embedded null character'')
   \<and> is_unc demo_world [97, 0, 98] = False
   \<and> abspath demo_world [92, 92, 115, 92, 120] = Inr [92, 92, 115, 92, 120]
   \<and> is_unc demo_world [92, 92, 115, 92, 120] = True"
proof -
  have a: "abspath demo_world [97, 0, 98] = Inl (ustr ''embedded null character'')"
    by (simp add: demo_world_def)
  have b: "abspath demo_world [92, 92, 115, 92, 120] = Inr [92, 92, 115, 92, 120]"
    by (simp add: demo_world_def startswith_def)
  show ?thesis
    using a b C9_is_unc_total [of demo_world "[97, 0, 98]"]
      C9_is_unc_total [of demo_world "[92, 92, 115, 92, 120]"]
    by (simp add: startswith_def)
qed

text \<open>
  C10. When \<open>os.cpu_count()\<close> reports nothing, the selector, in both versions, returns
  \<open>max(1, min(len(files), 2))\<close> for every non-empty file list with no UNC path, which
  is what it returns on a host that reports exactly 4 cores.
\<close>

theorem C10_cpu_count_unavailable:
  assumes "cpu_count w = None" and "files \<noteq> []"
    and "\<not> is_unc w out_dir" and "\<forall>f \<in> set files. \<not> is_unc w f"
  shows "auto_workers_v7 w files out_dir = max 1 (min (length files) 2)
         \<and> auto_workers_v8 w files out_dir = max 1 (min (length files) 2)
         \<and> auto_workers_v7 w files out_dir = auto_workers_v7 (w\<lparr>cpu_count := Some 4\<rparr>) files out_dir
         \<and> auto_workers_v8 w files out_dir = auto_workers_v8 (w\<lparr>cpu_count := Some 4\<rparr>) files out_dir"
proof -
  have c: "cores_or_4 w = 4" "cores_or_4 (w\<lparr>cpu_count := Some 4\<rparr>) = 4"
    using assms(1) by (simp_all add: cores_or_4_def)
  have "auto_workers_v8 w files out_dir = max 1 (min (length files) 2)"
    using auto_workers_v8_local [OF assms(2-4)] c by simp
  moreover have "auto_workers_v8 (w\<lparr>cpu_count := Some 4\<rparr>) files out_dir = max 1 (min (length files) 2)"
    using auto_workers_v8_local [of files "w\<lparr>cpu_count := Some 4\<rparr>" out_dir] assms(2-4) c
    by (simp add: is_unc_cpu_count)
  ultimately show ?thesis
    by (simp add: auto_workers_v7_v8)
qed

theorem C10_cpu_count_unavailable_witness:
  "cpu_count (demo_world\<lparr>cpu_count := None\<rparr>) = None
   \<and> auto_workers_v7 (demo_world\<lparr>cpu_count := None\<rparr>)
        [ustr ''imgs/a.tif'', ustr ''imgs/b.tiff'', ustr ''imgs/bad.tif''] (ustr ''out'') = 2
   \<and> auto_workers_v8 (demo_world\<lparr>cpu_count := None\<rparr>)
        [ustr ''imgs/a.tif'', ustr ''imgs/b.tiff'', ustr ''imgs/bad.tif''] (ustr ''out'') = 2"
proof -
  have u: "\<not> is_unc (demo_world\<lparr>cpu_count := None\<rparr>) (ustr ''out'')"
    "\<forall>f \<in> set [ustr ''imgs/a.tif'', ustr ''imgs/b.tiff'', ustr ''imgs/bad.tif''].
       \<not> is_unc (demo_world\<lparr>cpu_count := None\<rparr>) f"
    by (simp_all add: is_unc_def demo_world_def startswith_def ustr_def)
  have n: "cpu_count (demo_world\<lparr>cpu_count := None\<rparr>) = None"
    "[ustr ''imgs/a.tif'', ustr ''imgs/b.tiff'', ustr ''imgs/bad.tif''] \<noteq> []"
    by simp_all
  show ?thesis
    using C10_cpu_count_unavailable [OF n u] n(1) by simp
qed

section \<open>Properties of the name sanitizer\<close>

declare rstrip.simps [simp del]
declare name_before_dot.simps [simp del]

lemma ustr_literals:
  "ustr ''. '' = [46, 32]" "ustr ''._- '' = [46, 95, 45, 32]" "ustr ''_'' = [95]"
  by (simp_all add: ustr_def)

lemma rev_last_butlast: "s \<noteq> [] \<Longrightarrow> rev s = last s # rev (butlast s)"
  by (induction s rule: rev_induct) simp_all

lemma rstrip_dropWhile: "rstrip chars s = rev (dropWhile (\<lambda>c. c \<in> set chars) (rev s))"
proof (induction chars s rule: rstrip.induct)
  case (1 chars s)
  show ?case
  proof (cases "s \<noteq> [] \<and> last s \<in> set chars")
    case True
    then have revs: "rev s = last s # rev (butlast s)"
      by (simp add: rev_last_butlast)
    have "dropWhile (\<lambda>c. c \<in> set chars) (rev s)
          = dropWhile (\<lambda>c. c \<in> set chars) (last s # rev (butlast s))"
      by (simp only: revs)
    also have "\<dots> = dropWhile (\<lambda>c. c \<in> set chars) (rev (butlast s))"
      using True by simp
    finally have d: "dropWhile (\<lambda>c. c \<in> set chars) (rev s)
          = dropWhile (\<lambda>c. c \<in> set chars) (rev (butlast s))" .
    have "rstrip chars s = rstrip chars (butlast s)"
      using True by (subst rstrip.simps) simp
    then show ?thesis
      using "1.IH" True d by simp
  next
    case False
    then have r: "rstrip chars s = s"
      by (subst rstrip.simps) auto
    show ?thesis
    proof (cases "s = []")
      case True
      then show ?thesis using r by simp
    next
      case nonempty: False
      with False have l: "last s \<notin> set chars" by simp
      from nonempty have revs: "rev s = last s # rev (butlast s)"
        by (rule rev_last_butlast)
      have "dropWhile (\<lambda>c. c \<in> set chars) (rev s)
            = dropWhile (\<lambda>c. c \<in> set chars) (last s # rev (butlast s))"
        by (simp only: revs)
      also have "\<dots> = last s # rev (butlast s)"
        using l by simp
      also have "\<dots> = rev s"
        by (simp only: revs)
      finally show ?thesis using r by simp
    qed
  qed
qed

lemma rstrip_empty_iff: "rstrip chars s = [] \<longleftrightarrow> set s \<subseteq> set chars"
  by (auto simp add: rstrip_dropWhile dropWhile_eq_Nil_conv)

lemma join_replaced:
  "concat (map (\<lambda>c. if P c then [c] else [r]) base) = map (\<lambda>c. if P c then c else r) base"
  by (induction base) simp_all

lemma sanitize_map:
  "sanitize pf src =
     map (\<lambda>c. if isalnum pf c \<or> c \<in> set [46, 95, 45, 32] then c else 95)
       (rstrip [46, 32] (basename_no_ext pf src))"
  by (simp only: sanitize_def Let_def ustr_literals join_replaced)

lemma sanitize_refines: "sanitize pf path = sanitize_spec pf path"
  by (simp add: sanitize_map sanitize_spec_def rstrip_dropWhile)

lemma sanitize_chars:
  "c \<in> set (sanitize pf path) \<Longrightarrow> isalnum pf c \<or> c = 46 \<or> c = 95 \<or> c = 45 \<or> c = 32"
  by (auto simp add: sanitize_map split: if_splits)

lemma isalnum_ascii:
  "c < 128 \<Longrightarrow> isalnum pf c \<Longrightarrow> (48 \<le> c \<and> c \<le> 57) \<or> (65 \<le> c \<and> c \<le> 90) \<or> (97 \<le> c \<and> c \<le> 122)"
  by (simp add: isalnum_def)

lemma sanitize_length:
  "length (sanitize pf path) = length (rstrip (ustr ''. '') (basename_no_ext pf path))"
  by (simp add: sanitize_map ustr_literals)

lemma sanitize_nonempty_iff:
  "sanitize pf path \<noteq> [] \<longleftrightarrow> (\<exists>c \<in> set (basename_no_ext pf path). c \<noteq> 46 \<and> c \<noteq> 32)"
proof -
  have "sanitize pf path = [] \<longleftrightarrow> rstrip [46, 32] (basename_no_ext pf path) = []"
    by (simp add: sanitize_map)
  also have "\<dots> \<longleftrightarrow> set (basename_no_ext pf path) \<subseteq> set [46, 32]"
    by (rule rstrip_empty_iff)
  finally show ?thesis by auto
qed

lemma sanitize_basename:
  "basename pf p = basename pf q \<Longrightarrow> sanitize pf p = sanitize pf q"
  by (simp add: sanitize_def basename_no_ext_def)

lemma sanitize_no_ascii_control:
  assumes "c \<in> set (sanitize pf path)"
  shows "c \<noteq> 47 \<and> c \<noteq> 92 \<and> \<not> c < 32 \<and> c \<noteq> 127"
proof -
  from assms consider "isalnum pf c" | "c = 46 \<or> c = 95 \<or> c = 45 \<or> c = 32"
    using sanitize_chars by blast
  then show ?thesis
  proof cases
    case 1
    show ?thesis
    proof (cases "c < 128")
      case True
      with 1 show ?thesis using isalnum_ascii [of c pf] by auto
    next
      case False
      then show ?thesis by simp
    qed
  next
    case 2
    then show ?thesis by auto
  qed
qed

lemma sanitize_no_control:
  assumes "\<forall>c. is_control c \<longrightarrow> \<not> uni_alnum pf c" and "c \<in> set (sanitize pf path)"
  shows "\<not> is_control c"
proof
  assume ctl: "is_control c"
  have ascii: "\<not> c < 32 \<and> c \<noteq> 127"
    using assms(2) by (simp add: sanitize_no_ascii_control)
  with ctl have hi: "128 \<le> c" "c < 160"
    by (auto simp add: is_control_def)
  from assms(2) have "isalnum pf c \<or> c = 46 \<or> c = 95 \<or> c = 45 \<or> c = 32"
    by (rule sanitize_chars)
  with hi have "uni_alnum pf c"
    by (auto simp add: isalnum_def)
  with assms(1) ctl show False by blast
qed

text \<open>
  C7. For every input path, on every platform, the stem that \<open>save_jpeg.worker\<close>
  computes is the filename without its extension, with trailing periods and spaces
  stripped and every character that is not alphanumeric, a period, an underscore, a
  hyphen or a space replaced by an underscore. So every character of the stem is
  alphanumeric or one of those four; the stem holds no slash, no backslash and no
  ASCII control character; and it holds no control character at all, the Unicode
  database listing no control character as alphanumeric.
\<close>

theorem C7_sanitize:
  "sanitize pf path = sanitize_spec pf path
   \<and> (\<forall>c \<in> set (sanitize pf path). isalnum pf c \<or> c = 46 \<or> c = 95 \<or> c = 45 \<or> c = 32)
   \<and> (\<forall>c \<in> set (sanitize pf path). c \<noteq> 47 \<and> c \<noteq> 92 \<and> \<not> c < 32 \<and> c \<noteq> 127)
   \<and> ((\<forall>c. is_control c \<longrightarrow> \<not> uni_alnum pf c) \<longrightarrow>
        (\<forall>c \<in> set (sanitize pf path). \<not> is_control c))"
  using sanitize_refines [of pf path] sanitize_chars [of _ pf path]
    sanitize_no_ascii_control [of _ pf path] sanitize_no_control [of pf _ path]
  by blast

theorem C7_sanitize_witness:
  "sanitize posixpath (ustr ''dir/b'' @ [7] @ ustr ''c d'' @ [133, 233, 92] @ ustr ''.x.tif'')
     = ustr ''b_c d_'' @ [233] @ ustr ''_.x''
   \<and> sanitize_spec posixpath (ustr ''dir/b'' @ [7] @ ustr ''c d'' @ [133, 233, 92] @ ustr ''.x.tif'')
     = ustr ''b_c d_'' @ [233] @ ustr ''_.x''
   \<and> isalnum posixpath 233 \<and> \<not> isalnum posixpath 133
   \<and> list_all (\<lambda>c. \<not> is_control c)
        (sanitize posixpath (ustr ''dir/b'' @ [7] @ ustr ''c d'' @ [133, 233, 92] @ ustr ''.x.tif''))"
proof -
  let ?p = "ustr ''dir/b'' @ [7] @ ustr ''c d'' @ [133, 233, 92] @ ustr ''.x.tif''"
  have v: "sanitize posixpath ?p = ustr ''b_c d_'' @ [233] @ ustr ''_.x''"
    by code_simp
  have t: "\<forall>c. is_control c \<longrightarrow> \<not> uni_alnum posixpath c"
    by (auto simp add: posixpath_def latin1_alnum_def is_control_def)
  have a: "isalnum posixpath 233" "\<not> isalnum posixpath 133"
    by (simp_all add: isalnum_def posixpath_def latin1_alnum_def)
  note c7 = C7_sanitize [of posixpath ?p]
  from c7 have r: "sanitize_spec posixpath ?p = sanitize posixpath ?p"
    by simp
  from c7 t have "\<forall>c \<in> set (sanitize posixpath ?p). \<not> is_control c"
    by blast
  then have nc: "list_all (\<lambda>c. \<not> is_control c) (sanitize posixpath ?p)"
    by (simp only: list_all_iff)
  show ?thesis
    using v a nc by (simp only: r simp_thms)
qed

text \<open>
  C8, as stated, fails: a file named \<open>" .tif"\<close> (a space, then the extension) has a
  non-empty basename and an empty stem, so the output is written to \<open>.jpg\<close>.
\<close>

theorem C8_counterexample:
  "basename posixpath (ustr ''imgs/ .tif'') = ustr '' .tif''
   \<and> ustr '' .tif'' \<noteq> []
   \<and> sanitize posixpath (ustr ''imgs/ .tif'') = []"
  by code_simp

text \<open>
  C8, amended. The stem is as long as the filename without its extension, stripped of
  its trailing periods and spaces; it is non-empty exactly when the filename without its
  extension holds a character other than a period and a space. Two paths with the same
  basename have the same stem: the stem is a function of the platform's path rules and
  the path, and of nothing else.
\<close>

theorem C8_sanitize_nonempty:
  "(sanitize pf path \<noteq> [] \<longleftrightarrow> (\<exists>c \<in> set (basename_no_ext pf path). c \<noteq> 46 \<and> c \<noteq> 32))
   \<and> length (sanitize pf path) = length (rstrip (ustr ''. '') (basename_no_ext pf path))
   \<and> (basename pf path = basename pf path' \<longrightarrow> sanitize pf path = sanitize pf path')"
  using sanitize_nonempty_iff [of pf path] sanitize_length [of pf path]
    sanitize_basename [of pf path path']
  by blast

theorem C8_sanitize_nonempty_witness:
  "basename posixpath (ustr ''imgs/a.b.tif'') = basename posixpath (ustr ''other/a.b.tif'')
   \<and> basename_no_ext posixpath (ustr ''imgs/a.b.tif'') = ustr ''a.b''
   \<and> sanitize posixpath (ustr ''imgs/a.b.tif'') = ustr ''a.b''
   \<and> sanitize posixpath (ustr ''other/a.b.tif'') = ustr ''a.b''"
proof -
  have b: "basename posixpath (ustr ''imgs/a.b.tif'') = basename posixpath (ustr ''other/a.b.tif'')"
    by code_simp
  have n: "basename_no_ext posixpath (ustr ''imgs/a.b.tif'') = ustr ''a.b''"
    by code_simp
  have s: "sanitize posixpath (ustr ''imgs/a.b.tif'') = ustr ''a.b''"
    by code_simp
  show ?thesis
    using b n s C8_sanitize_nonempty [of posixpath "ustr ''imgs/a.b.tif''" "ustr ''other/a.b.tif''"]
    by simp
qed

section \<open>Properties of the format normalizer\<close>

lemma ensure_rgb_v8_v7: "ensure_rgb_v8 lib img = ensure_rgb_v7 lib img"
  by (simp add: ensure_rgb_v8_def ensure_rgb_v7_def)

lemma paste_pixels:
  "n = length ps \<Longrightarrow>
   map (\<lambda>(d, s, m). f (hd m) d s) (zip (replicate n c) (zip ps (map (\<lambda>p. [last p]) ps)))
   = map (\<lambda>p. f (last p) c p) ps"
  by (induction ps arbitrary: n) auto

lemma ensure_rgb_v7_alpha:
  assumes "im_mode img = ''RGBA'' \<or> im_mode img = ''LA''"
    and "length (im_pixels img) = fst (im_size img) * snd (im_size img)"
  shows "ensure_rgb_v7 lib img =
           \<lparr>im_mode = ''RGB'', im_size = im_size img,
            im_pixels = map (\<lambda>p. blend lib (last p) [255, 255, 255] p) (im_pixels img)\<rparr>"
proof -
  have "ensure_rgb_v7 lib img = paste lib (image_new ''RGB'' (im_size img) [255, 255, 255]) img (split_last img)"
    using assms(1) by (auto simp add: ensure_rgb_v7_def Let_def)
  also have "\<dots> = \<lparr>im_mode = ''RGB'', im_size = im_size img,
            im_pixels = map (\<lambda>p. blend lib (last p) [255, 255, 255] p) (im_pixels img)\<rparr>"
    using paste_pixels [of "fst (im_size img) * snd (im_size img)" "im_pixels img" "blend lib" "[255, 255, 255]"] assms(2)
    by (simp add: paste_def image_new_def split_last_def)
  finally show ?thesis .
qed

lemma ensure_rgb_v7_other:
  "im_mode img \<noteq> ''RGBA'' \<Longrightarrow> im_mode img \<noteq> ''LA'' \<Longrightarrow> im_mode img \<noteq> ''RGB'' \<Longrightarrow>
   ensure_rgb_v7 lib img = convert lib img ''RGB''"
  by (simp add: ensure_rgb_v7_def)

lemma ensure_rgb_v7_rgb: "im_mode img = ''RGB'' \<Longrightarrow> ensure_rgb_v7 lib img = img"
  by (simp add: ensure_rgb_v7_def)

text \<open>
  C6. For every decoded image (a pixel for each position of its size), in both
  versions: an \<open>RGBA\<close> or \<open>LA\<close> image becomes an \<open>RGB\<close> image of the same size in
  which each pixel is the blend of the source pixel into white under the pixel's alpha
  (its last band), so that a fully transparent pixel is white wherever the library's
  blend keeps the destination under mask 0; a palette image and an image of any other
  mode than \<open>RGB\<close> is converted to \<open>RGB\<close> by the library; an \<open>RGB\<close> image is returned
  as it is.
\<close>

theorem C6_ensure_rgb:
  assumes wf: "length (im_pixels img) = fst (im_size img) * snd (im_size img)"
  shows "ensure_rgb_v8 lib img = ensure_rgb_v7 lib img
    \<and> (im_mode img = ''RGBA'' \<or> im_mode img = ''LA'' \<longrightarrow>
          im_mode (ensure_rgb_v7 lib img) = ''RGB''
        \<and> im_size (ensure_rgb_v7 lib img) = im_size img
        \<and> im_pixels (ensure_rgb_v7 lib img)
            = map (\<lambda>p. blend lib (last p) [255, 255, 255] p) (im_pixels img)
        \<and> ((\<forall>d s. blend lib 0 d s = d) \<longrightarrow>
             (\<forall>i < length (im_pixels img). last (im_pixels img ! i) = 0 \<longrightarrow>
                im_pixels (ensure_rgb_v7 lib img) ! i = [255, 255, 255])))
    \<and> (im_mode img = ''P'' \<longrightarrow> ensure_rgb_v7 lib img = convert lib img ''RGB'')
    \<and> (im_mode img \<notin> {''RGBA'', ''LA'', ''P'', ''RGB''} \<longrightarrow>
          ensure_rgb_v7 lib img = convert lib img ''RGB'')
    \<and> (im_mode img = ''RGB'' \<longrightarrow> ensure_rgb_v7 lib img = img)"
proof -
  have alpha: "im_mode img = ''RGBA'' \<or> im_mode img = ''LA'' \<longrightarrow>
          im_mode (ensure_rgb_v7 lib img) = ''RGB''
        \<and> im_size (ensure_rgb_v7 lib img) = im_size img
        \<and> im_pixels (ensure_rgb_v7 lib img)
            = map (\<lambda>p. blend lib (last p) [255, 255, 255] p) (im_pixels img)
        \<and> ((\<forall>d s. blend lib 0 d s = d) \<longrightarrow>
             (\<forall>i < length (im_pixels img). last (im_pixels img ! i) = 0 \<longrightarrow>
                im_pixels (ensure_rgb_v7 lib img) ! i = [255, 255, 255]))"
  proof
    assume m: "im_mode img = ''RGBA'' \<or> im_mode img = ''LA''"
    show "im_mode (ensure_rgb_v7 lib img) = ''RGB''
        \<and> im_size (ensure_rgb_v7 lib img) = im_size img
        \<and> im_pixels (ensure_rgb_v7 lib img)
            = map (\<lambda>p. blend lib (last p) [255, 255, 255] p) (im_pixels img)
        \<and> ((\<forall>d s. blend lib 0 d s = d) \<longrightarrow>
             (\<forall>i < length (im_pixels img). last (im_pixels img ! i) = 0 \<longrightarrow>
                im_pixels (ensure_rgb_v7 lib img) ! i = [255, 255, 255]))"
      by (simp add: ensure_rgb_v7_alpha [OF m wf])
  qed
  have p: "im_mode img = ''P'' \<longrightarrow> ensure_rgb_v7 lib img = convert lib img ''RGB''"
    by (simp add: ensure_rgb_v7_other)
  have other: "im_mode img \<notin> {''RGBA'', ''LA'', ''P'', ''RGB''} \<longrightarrow>
          ensure_rgb_v7 lib img = convert lib img ''RGB''"
    by (simp add: ensure_rgb_v7_other)
  have rgb: "im_mode img = ''RGB'' \<longrightarrow> ensure_rgb_v7 lib img = img"
    by (simp add: ensure_rgb_v7_rgb)
  show ?thesis
    using ensure_rgb_v8_v7 [of lib img] alpha p other rgb by blast
qed

theorem C6_ensure_rgb_witness:
  "length (im_pixels demo_image) = fst (im_size demo_image) * snd (im_size demo_image)
   \<and> im_mode demo_image = ''RGBA''
   \<and> last (im_pixels demo_image ! 0) = 0
   \<and> im_pixels (ensure_rgb_v7 demo_pil demo_image) ! 0 = [255, 255, 255]
   \<and> ensure_rgb_v8 demo_pil demo_image = ensure_rgb_v7 demo_pil demo_image
   \<and> ensure_rgb_v7 demo_pil demo_image
       = \<lparr>im_mode = ''RGB'', im_size = (2, 1), im_pixels = [[255, 255, 255], [40, 50, 60]]\<rparr>"
proof -
  have wf: "length (im_pixels demo_image) = fst (im_size demo_image) * snd (im_size demo_image)"
    by (simp add: demo_image_def)
  have m: "im_mode demo_image = ''RGBA''"
    by (simp add: demo_image_def)
  have l: "last (im_pixels demo_image ! 0) = 0" "0 < length (im_pixels demo_image)"
    by (simp_all add: demo_image_def)
  have b: "\<forall>d s. blend demo_pil 0 d s = d"
  proof (intro allI)
    fix d s :: pixel
    have "map (\<lambda>(k, x). x) (enumerate 0 d) = map snd (enumerate 0 d)"
      by (simp add: case_prod_unfold)
    then show "blend demo_pil 0 d s = d"
      by (simp add: demo_pil_def)
  qed
  note c6 = C6_ensure_rgb [OF wf, of demo_pil]
  from c6 have same: "ensure_rgb_v8 demo_pil demo_image = ensure_rgb_v7 demo_pil demo_image"
    by (rule conjunct1)
  from c6 m b l have white: "im_pixels (ensure_rgb_v7 demo_pil demo_image) ! 0 = [255, 255, 255]"
    by blast
  have v: "ensure_rgb_v7 demo_pil demo_image
       = \<lparr>im_mode = ''RGB'', im_size = (2, 1), im_pixels = [[255, 255, 255], [40, 50, 60]]\<rparr>"
    by (simp add: ensure_rgb_v7_def demo_pil_def demo_image_def paste_def image_new_def
          split_last_def Let_def enumerate_eq_zip numeral_2_eq_2 upt_rec)
  show ?thesis
    using wf m l(1) white same v by (intro conjI)
qed

section \<open>Properties of the batch operations\<close>

lemma print_line_fields [simp]:
  "console (print_line l a) = console a @ [l]"
  "progress_var (print_line l a) = progress_var a"
  "progress_max (print_line l a) = progress_max a"
  "progress_hist (print_line l a) = progress_hist a"
  "pools (print_line l a) = pools a"
  "dialogs (print_line l a) = dialogs a"
  "input_files (print_line l a) = input_files a"
  "output_dir (print_line l a) = output_dir a"
  "status_jpeg (print_line l a) = status_jpeg a"
  "status_dz (print_line l a) = status_dz a"
  "busy (print_line l a) = busy a"
  by (simp_all add: print_line_def)

lemma set_progress_fields [simp]:
  "console (set_progress v a) = console a"
  "progress_var (set_progress v a) = v"
  "progress_max (set_progress v a) = progress_max a"
  "progress_hist (set_progress v a) = progress_hist a @ [v]"
  "pools (set_progress v a) = pools a"
  "dialogs (set_progress v a) = dialogs a"
  "input_files (set_progress v a) = input_files a"
  "output_dir (set_progress v a) = output_dir a"
  "status_jpeg (set_progress v a) = status_jpeg a"
  "status_dz (set_progress v a) = status_dz a"
  "busy (set_progress v a) = busy a"
  by (simp_all add: set_progress_def)

lemma show_dialog_fields [simp]:
  "console (show_dialog d a) = console a"
  "progress_var (show_dialog d a) = progress_var a"
  "progress_max (show_dialog d a) = progress_max a"
  "progress_hist (show_dialog d a) = progress_hist a"
  "pools (show_dialog d a) = pools a"
  "dialogs (show_dialog d a) = dialogs a @ [d]"
  "input_files (show_dialog d a) = input_files a"
  "output_dir (show_dialog d a) = output_dir a"
  by (simp_all add: show_dialog_def)

lemma submit_pool_fields [simp]:
  "console (submit_pool m k a) = console a"
  "progress_var (submit_pool m k a) = progress_var a"
  "progress_max (submit_pool m k a) = progress_max a"
  "progress_hist (submit_pool m k a) = progress_hist a"
  "pools (submit_pool m k a) = pools a @ [(m, k)]"
  "dialogs (submit_pool m k a) = dialogs a"
  "input_files (submit_pool m k a) = input_files a"
  "output_dir (submit_pool m k a) = output_dir a"
  by (simp_all add: submit_pool_def)

text \<open>What one file does to the tally and to the state, version 7.\<close>

lemma jpeg_file_v7_tally:
  "fst (jpeg_file_v7 pf w lib src t a) =
     (if path_exists w src \<and> \<not> jpeg_raises pf w lib (output_dir a) src
      then t\<lparr>converted := converted t + 1\<rparr> else t\<lparr>errors := errors t + 1\<rparr>)"
  by (simp add: jpeg_file_v7_def jpeg_raises_def Let_def split: sum.splits option.splits)

lemma jpeg_file_v7_fields [simp]:
  "output_dir (snd (jpeg_file_v7 pf w lib src t a)) = output_dir a"
  "input_files (snd (jpeg_file_v7 pf w lib src t a)) = input_files a"
  "progress_var (snd (jpeg_file_v7 pf w lib src t a)) = progress_var a"
  "progress_max (snd (jpeg_file_v7 pf w lib src t a)) = progress_max a"
  "progress_hist (snd (jpeg_file_v7 pf w lib src t a)) = progress_hist a"
  "pools (snd (jpeg_file_v7 pf w lib src t a)) = pools a"
  "dialogs (snd (jpeg_file_v7 pf w lib src t a)) = dialogs a"
  by (simp_all add: jpeg_file_v7_def Let_def split: sum.splits option.splits)


lemma jpeg_loop_v7_Cons:
  "jpeg_loop_v7 pf w lib i (src # rest) t a =
     jpeg_loop_v7 pf w lib (i + 1) rest (fst (jpeg_file_v7 pf w lib src t a))
       (set_progress i (snd (jpeg_file_v7 pf w lib src t a)))"
  by (simp add: case_prod_beta)

lemma jpeg_loop_v7_tally:
  "converted (fst (jpeg_loop_v7 pf w lib i files t a)) =
     converted t + length (filter (\<lambda>src. path_exists w src \<and> \<not> jpeg_raises pf w lib (output_dir a) src) files)
   \<and> errors (fst (jpeg_loop_v7 pf w lib i files t a)) =
     errors t + length (filter (\<lambda>src. \<not> path_exists w src \<or> jpeg_raises pf w lib (output_dir a) src) files)"
proof (induction files arbitrary: i t a)
  case Nil
  show ?case by simp
next
  case (Cons src rest)
  show ?case
    unfolding jpeg_loop_v7_Cons
    by (simp add: Cons.IH jpeg_file_v7_tally)
qed

lemma jpeg_loop_v7_fields:
  "output_dir (snd (jpeg_loop_v7 pf w lib i files t a)) = output_dir a
   \<and> input_files (snd (jpeg_loop_v7 pf w lib i files t a)) = input_files a
   \<and> progress_max (snd (jpeg_loop_v7 pf w lib i files t a)) = progress_max a
   \<and> pools (snd (jpeg_loop_v7 pf w lib i files t a)) = pools a
   \<and> dialogs (snd (jpeg_loop_v7 pf w lib i files t a)) = dialogs a"
proof (induction files arbitrary: i t a)
  case Nil
  show ?case by simp
next
  case (Cons src rest)
  show ?case
    unfolding jpeg_loop_v7_Cons
    by (simp add: Cons.IH)
qed

lemma jpeg_loop_v7_progress:
  "progress_hist (snd (jpeg_loop_v7 pf w lib i files t a)) = progress_hist a @ [i ..< i + length files]
   \<and> progress_var (snd (jpeg_loop_v7 pf w lib i files t a)) =
       (if files = [] then progress_var a else i + length files - 1)"
proof (induction files arbitrary: i t a)
  case Nil
  show ?case by simp
next
  case (Cons src rest)
  show ?case
    unfolding jpeg_loop_v7_Cons
    by (simp add: Cons.IH upt_rec)
qed


lemma jpeg_loop_v7_append:
  "jpeg_loop_v7 pf w lib i (xs @ ys) t a =
     jpeg_loop_v7 pf w lib (i + length xs) ys
       (fst (jpeg_loop_v7 pf w lib i xs t a)) (snd (jpeg_loop_v7 pf w lib i xs t a))"
proof (induction xs arbitrary: i t a)
  case Nil
  show ?case by simp
next
  case (Cons x xs)
  show ?case
    unfolding append_Cons jpeg_loop_v7_Cons by (simp add: Cons.IH)
qed

lemma jpeg_file_v7_world:
  "jpeg_file_v7 pf (w\<lparr>abspath := f, cpu_count := c\<rparr>) lib src t a = jpeg_file_v7 pf w lib src t a"
  by (simp add: jpeg_file_v7_def Let_def split: sum.splits)

lemma jpeg_loop_v7_world:
  "jpeg_loop_v7 pf (w\<lparr>abspath := f, cpu_count := c\<rparr>) lib i files t a
   = jpeg_loop_v7 pf w lib i files t a"
  by (induction files arbitrary: i t a) (simp_all add: jpeg_file_v7_world)


lemma jpeg_convert_v8_fields [simp]:
  "output_dir (snd (jpeg_convert_v8 pf w lib src t a)) = output_dir a"
  "input_files (snd (jpeg_convert_v8 pf w lib src t a)) = input_files a"
  "progress_var (snd (jpeg_convert_v8 pf w lib src t a)) = progress_var a"
  "progress_max (snd (jpeg_convert_v8 pf w lib src t a)) = progress_max a"
  "progress_hist (snd (jpeg_convert_v8 pf w lib src t a)) = progress_hist a"
  "pools (snd (jpeg_convert_v8 pf w lib src t a)) = pools a"
  "dialogs (snd (jpeg_convert_v8 pf w lib src t a)) = dialogs a"
  by (simp_all add: jpeg_convert_v8_def Let_def split: sum.splits option.splits)


lemma jpeg_loop_v8_Cons:
  "jpeg_loop_v8 pf w lib i (src # rest) t a =
     (if \<not> path_exists w src
      then jpeg_loop_v8 pf w lib (i + 1) rest (t\<lparr>errors := errors t + 1\<rparr>)
             (print_line (Log_skipped src) a)
      else jpeg_loop_v8 pf w lib (i + 1) rest (fst (jpeg_convert_v8 pf w lib src t a))
             (set_progress i (snd (jpeg_convert_v8 pf w lib src t a))))"
  by (simp add: case_prod_beta)


lemma jpeg_loop_v8_fields:
  "output_dir (snd (jpeg_loop_v8 pf w lib i files t a)) = output_dir a
   \<and> input_files (snd (jpeg_loop_v8 pf w lib i files t a)) = input_files a
   \<and> progress_max (snd (jpeg_loop_v8 pf w lib i files t a)) = progress_max a
   \<and> pools (snd (jpeg_loop_v8 pf w lib i files t a)) = pools a
   \<and> dialogs (snd (jpeg_loop_v8 pf w lib i files t a)) = dialogs a"
proof (induction files arbitrary: i t a)
  case Nil
  show ?case by simp
next
  case (Cons src rest)
  show ?case
    unfolding jpeg_loop_v8_Cons
    by (simp add: Cons.IH)
qed


lemma jpeg_loop_v8_append:
  "jpeg_loop_v8 pf w lib i (xs @ ys) t a =
     jpeg_loop_v8 pf w lib (i + length xs) ys
       (fst (jpeg_loop_v8 pf w lib i xs t a)) (snd (jpeg_loop_v8 pf w lib i xs t a))"
proof (induction xs arbitrary: i t a)
  case Nil
  show ?case by simp
next
  case (Cons x xs)
  show ?case
    unfolding append_Cons jpeg_loop_v8_Cons by (simp add: Cons.IH)
qed

lemma jpeg_convert_v8_world:
  "jpeg_convert_v8 pf (w\<lparr>abspath := f, cpu_count := c\<rparr>) lib src t a = jpeg_convert_v8 pf w lib src t a"
  by (simp add: jpeg_convert_v8_def Let_def split: sum.splits)

lemma jpeg_loop_v8_world:
  "jpeg_loop_v8 pf (w\<lparr>abspath := f, cpu_count := c\<rparr>) lib i files t a
   = jpeg_loop_v8 pf w lib i files t a"
  by (induction files arbitrary: i t a) (simp_all add: jpeg_convert_v8_world)




lemma dz_collect_v7_Cons:
  "dz_collect_v7 (r # rest) done_count t a =
     dz_collect_v7 rest (done_count + 1)
       (if fst r = ''ok'' then t\<lparr>created := created t + 1\<rparr>
        else if fst r = ''skip'' then t\<lparr>skipped := skipped t + 1\<rparr>
        else t\<lparr>dz_errors := dz_errors t + 1\<rparr>)
       (set_progress (done_count + 1)
          (print_line
             (if fst r = ''ok'' then Log_created (snd (snd r))
              else if fst r = ''skip'' then Log_skipped (fst (snd r))
              else Log_error (fst (snd r)) (snd (snd r))) a))"
  by (cases r) (simp add: Let_def)

lemma dz_collect_v7_tally:
  "created (fst (dz_collect_v7 rs d t a)) = created t + length (filter (\<lambda>r. fst r = ''ok'') rs)
   \<and> skipped (fst (dz_collect_v7 rs d t a)) = skipped t + length (filter (\<lambda>r. fst r = ''skip'') rs)
   \<and> dz_errors (fst (dz_collect_v7 rs d t a)) =
       dz_errors t + length (filter (\<lambda>r. fst r \<noteq> ''ok'' \<and> fst r \<noteq> ''skip'') rs)"
proof (induction rs arbitrary: d t a)
  case Nil
  show ?case by simp
next
  case (Cons r rest)
  show ?case
    unfolding dz_collect_v7_Cons by (simp add: Cons.IH)
qed

lemma dz_collect_v7_fields:
  "output_dir (snd (dz_collect_v7 rs d t a)) = output_dir a
   \<and> input_files (snd (dz_collect_v7 rs d t a)) = input_files a
   \<and> progress_max (snd (dz_collect_v7 rs d t a)) = progress_max a
   \<and> pools (snd (dz_collect_v7 rs d t a)) = pools a
   \<and> dialogs (snd (dz_collect_v7 rs d t a)) = dialogs a"
proof (induction rs arbitrary: d t a)
  case Nil
  show ?case by simp
next
  case (Cons r rest)
  show ?case
    unfolding dz_collect_v7_Cons by (simp add: Cons.IH)
qed

lemma dz_collect_v7_progress:
  "progress_hist (snd (dz_collect_v7 rs d t a)) = progress_hist a @ [d + 1 ..< d + 1 + length rs]
   \<and> progress_var (snd (dz_collect_v7 rs d t a)) =
       (if rs = [] then progress_var a else d + length rs)"
proof (induction rs arbitrary: d t a)
  case Nil
  show ?case by simp
next
  case (Cons r rest)
  show ?case
    unfolding dz_collect_v7_Cons by (simp add: Cons.IH upt_rec)
qed



text \<open>The loop of version 8.\<close>

lemma dz_convert_one_v8_raises:
  "(\<exists>e. dz_convert_one_v8 pf w src outdir = Inl e) \<longleftrightarrow> dz_raises pf w outdir src"
  by (auto simp add: dz_convert_one_v8_def dz_raises_def Let_def split: sum.splits option.splits)

lemma dz_loop_v8_Cons:
  "dz_loop_v8 pf w i (src # rest) success a =
     (if dz_raises pf w (output_dir a) src
      then dz_loop_v8 pf w (i + 1) rest success
             (set_progress i
                (print_line (Log_error src (case dz_convert_one_v8 pf w src (output_dir a) of
                                               Inl e \<Rightarrow> e | Inr r \<Rightarrow> [])) a))
      else dz_loop_v8 pf w (i + 1) rest (success + 1)
             (set_progress i (print_line (Log_created (basename_no_ext pf src @ ustr ''.dzi'')) a)))"
  using dz_convert_one_v8_raises [of pf w src "output_dir a"]
  by (cases "dz_convert_one_v8 pf w src (output_dir a)") auto


lemma dz_loop_v8_fields:
  "output_dir (snd (dz_loop_v8 pf w i files success a)) = output_dir a
   \<and> input_files (snd (dz_loop_v8 pf w i files success a)) = input_files a
   \<and> progress_max (snd (dz_loop_v8 pf w i files success a)) = progress_max a
   \<and> pools (snd (dz_loop_v8 pf w i files success a)) = pools a
   \<and> dialogs (snd (dz_loop_v8 pf w i files success a)) = dialogs a"
proof (induction files arbitrary: i success a)
  case Nil
  show ?case by simp
next
  case (Cons src rest)
  show ?case
    unfolding dz_loop_v8_Cons by (simp add: Cons.IH)
qed

lemma dz_loop_v8_progress:
  "progress_hist (snd (dz_loop_v8 pf w i files success a)) = progress_hist a @ [i ..< i + length files]
   \<and> progress_var (snd (dz_loop_v8 pf w i files success a)) =
       (if files = [] then progress_var a else i + length files - 1)"
proof (induction files arbitrary: i success a)
  case Nil
  show ?case by simp
next
  case (Cons src rest)
  show ?case
    unfolding dz_loop_v8_Cons by (simp add: Cons.IH upt_rec)
qed

lemma dz_loop_v8_append:
  "dz_loop_v8 pf w i (xs @ ys) success a =
     dz_loop_v8 pf w (i + length xs) ys
       (fst (dz_loop_v8 pf w i xs success a)) (snd (dz_loop_v8 pf w i xs success a))"
proof (induction xs arbitrary: i success a)
  case Nil
  show ?case by simp
next
  case (Cons x xs)
  have step: "dz_loop_v8 pf w i (x # xs @ ys) success a =
     (case dz_convert_one_v8 pf w x (output_dir a) of
        Inr r \<Rightarrow>
          dz_loop_v8 pf w (i + 1) (xs @ ys) (success + 1)
            (set_progress i (print_line (Log_created (basename_no_ext pf x @ ustr ''.dzi'')) a))
      | Inl e \<Rightarrow>
          dz_loop_v8 pf w (i + 1) (xs @ ys) success (set_progress i (print_line (Log_error x e) a)))"
    by simp
  show ?case
    unfolding append_Cons step
    by (cases "dz_convert_one_v8 pf w x (output_dir a)") (simp_all add: Cons.IH)
qed

lemma dz_convert_one_v8_world:
  "dz_convert_one_v8 pf (w\<lparr>cpu_count := c\<rparr>) src outdir = dz_convert_one_v8 pf w src outdir"
  by (simp add: dz_convert_one_v8_def path_to_file_uri_def Let_def split: sum.splits)

lemma dz_loop_v8_world:
  "dz_loop_v8 pf (w\<lparr>cpu_count := c\<rparr>) i files success a = dz_loop_v8 pf w i files success a"
  by (induction files arbitrary: i success a)
    (simp_all add: dz_convert_one_v8_world split: sum.splits)

text \<open>The workers and the operations, in terms of their loops.\<close>

lemma save_jpeg_worker_v7_eq:
  "save_jpeg_worker_v7 pf w lib a =
     (fst (jpeg_loop_v7 pf w lib 1 (input_files a) \<lparr>converted = 0, errors = 0\<rparr> a),
      show_dialog
        (Show_info ''Done''
           [converted (fst (jpeg_loop_v7 pf w lib 1 (input_files a) \<lparr>converted = 0, errors = 0\<rparr> a)),
            errors (fst (jpeg_loop_v7 pf w lib 1 (input_files a) \<lparr>converted = 0, errors = 0\<rparr> a))])
        ((print_line
            (Log_done
               [converted (fst (jpeg_loop_v7 pf w lib 1 (input_files a) \<lparr>converted = 0, errors = 0\<rparr> a)),
                errors (fst (jpeg_loop_v7 pf w lib 1 (input_files a) \<lparr>converted = 0, errors = 0\<rparr> a))])
            (snd (jpeg_loop_v7 pf w lib 1 (input_files a) \<lparr>converted = 0, errors = 0\<rparr> a)))
         \<lparr>status_jpeg :=
            Some (converted (fst (jpeg_loop_v7 pf w lib 1 (input_files a) \<lparr>converted = 0, errors = 0\<rparr> a))),
          busy := False\<rparr>))"
  by (simp add: save_jpeg_worker_v7_def Let_def case_prod_beta)


lemma save_jpeg_worker_v8_fields:
  "pools (snd (save_jpeg_worker_v8 pf w lib a)) = pools a"
  by (simp add: save_jpeg_worker_v8_def Let_def case_prod_beta jpeg_loop_v8_fields
        split: option.splits)


lemma run_parallel_v7_eq:
  "run_parallel_v7 pf w workers completion a =
     (let a2 = submit_pool workers (length (input_files a)) (print_line (Log_workers workers) a);
          r = dz_collect_v7 (map (job_v7 pf w (output_dir a)) completion) 0
                \<lparr>created = 0, skipped = 0, dz_errors = 0\<rparr> a2
      in (fst r,
          show_dialog
            (Show_info ''DeepZoom Complete'' [created (fst r), skipped (fst r), dz_errors (fst r)])
            ((print_line (Log_done [created (fst r), skipped (fst r), dz_errors (fst r)]) (snd r))
             \<lparr>status_dz := Some (created (fst r)), busy := False\<rparr>)))"
  by (simp add: run_parallel_v7_def Let_def case_prod_beta)


lemma create_deepzoom_worker_v8_fields:
  "pools (snd (create_deepzoom_worker_v8 pf w a)) = pools a
   \<and> progress_max (snd (create_deepzoom_worker_v8 pf w a)) = progress_max a
   \<and> progress_hist (snd (create_deepzoom_worker_v8 pf w a)) =
       progress_hist a @ [1 ..< 1 + length (input_files a)]
   \<and> progress_var (snd (create_deepzoom_worker_v8 pf w a)) =
       (if input_files a = [] then progress_var a else length (input_files a))"
  by (simp add: create_deepzoom_worker_v8_def Let_def case_prod_beta dz_loop_v8_fields
        dz_loop_v8_progress split: option.splits)

lemma upt_from_0: "0 # [1 ..< 1 + n] = [0 ..< n + 1]"
  by (simp add: upt_rec)

lemma save_jpeg_v7_started:
  assumes "input_files a \<noteq> []" "output_dir a \<noteq> []" "makedirs w (output_dir a) = None"
  shows "save_jpeg_v7 pf w lib a =
           Inr (snd (save_jpeg_worker_v7 pf w lib
                  (submit_pool 1 1
                     ((set_progress 0 (a\<lparr>progress_max := length (input_files a)\<rparr>))\<lparr>busy := True\<rparr>))))"
  using assms by (simp add: save_jpeg_v7_def Let_def)

lemma save_jpeg_v8_started:
  assumes "input_files a \<noteq> []" "output_dir a \<noteq> []" "makedirs w (output_dir a) = None"
  shows "save_jpeg_v8 pf w lib a =
           Inr (snd (save_jpeg_worker_v8 pf w lib
                  (submit_pool 1 1 (set_progress 0 (a\<lparr>progress_max := length (input_files a)\<rparr>)))))"
  using assms by (simp add: save_jpeg_v8_def Let_def)

lemma create_deepzoom_v7_started:
  assumes "has_deepzoom w" "input_files a \<noteq> []" "output_dir a \<noteq> []"
    "makedirs w (output_dir a) = None"
  shows "create_deepzoom_v7 pf w completion a =
           Inr (snd (run_parallel_v7 pf w (auto_workers_v7 w (input_files a) (output_dir a)) completion
                  (submit_pool 1 1
                     (print_line (Log_auto_workers (auto_workers_v7 w (input_files a) (output_dir a)))
                        ((set_progress 0 (a\<lparr>progress_max := length (input_files a)\<rparr>))
                         \<lparr>busy := True\<rparr>)))))"
  using assms by (simp add: create_deepzoom_v7_def Let_def)

lemma create_deepzoom_v8_started:
  assumes "has_deepzoom w" "input_files a \<noteq> []" "output_dir a \<noteq> []"
    "makedirs w (output_dir a) = None"
  shows "create_deepzoom_v8 pf w a =
           Inr (snd (create_deepzoom_worker_v8 pf w
                  (submit_pool 1 1 (set_progress 0 (a\<lparr>progress_max := length (input_files a)\<rparr>)))))"
  using assms by (simp add: create_deepzoom_v8_def Let_def)

lemma filter_split_sum:
  "length (filter (\<lambda>x. P x \<and> \<not> Q x) xs) + length (filter (\<lambda>x. \<not> P x \<or> Q x) xs) = length xs"
  by (induction xs) auto

lemma status_split_sum:
  "length (filter (\<lambda>r. fst r = ''ok'') rs)
   + (length (filter (\<lambda>r. fst r = ''skip'') rs)
      + length (filter (\<lambda>r. fst r \<noteq> ''ok'' \<and> fst r \<noteq> ''skip'') rs))
   = length rs"
  by (induction rs) auto

lemma save_jpeg_v7_run:
  assumes "input_files a \<noteq> []" "output_dir a \<noteq> []" "makedirs w (output_dir a) = None"
  shows "\<exists>a' c e. save_jpeg_v7 pf w lib a = Inr a'
           \<and> dialogs a' = dialogs a @ [Show_info ''Done'' [c, e]]
           \<and> c + e = length (input_files a)
           \<and> progress_max a' = length (input_files a)
           \<and> progress_var a' = length (input_files a)
           \<and> progress_hist a' = progress_hist a @ [0 ..< length (input_files a) + 1]
           \<and> pools a' = pools a @ [(1, 1)]"
proof -
  define a0 where "a0 = submit_pool 1 1
               ((set_progress 0 (a\<lparr>progress_max := length (input_files a)\<rparr>))\<lparr>busy := True\<rparr>)"
  define r where "r = jpeg_loop_v7 pf w lib 1 (input_files a0) \<lparr>converted = 0, errors = 0\<rparr> a0"
  define a' where "a' = show_dialog (Show_info ''Done'' [converted (fst r), errors (fst r)])
        ((print_line (Log_done [converted (fst r), errors (fst r)]) (snd r))
         \<lparr>status_jpeg := Some (converted (fst r)), busy := False\<rparr>)"
  have a0: "input_files a0 = input_files a" "dialogs a0 = dialogs a"
    "progress_max a0 = length (input_files a)" "pools a0 = pools a @ [(1, 1)]"
    "progress_hist a0 = progress_hist a @ [0]"
    by (simp_all add: a0_def)
  have "save_jpeg_v7 pf w lib a = Inr (snd (save_jpeg_worker_v7 pf w lib a0))"
    unfolding a0_def using assms by (rule save_jpeg_v7_started)
  moreover have "snd (save_jpeg_worker_v7 pf w lib a0) = a'"
    by (simp add: save_jpeg_worker_v7_eq a'_def r_def)
  ultimately have eq: "save_jpeg_v7 pf w lib a = Inr a'"
    by simp
  have tally: "converted (fst r) + errors (fst r) = length (input_files a)"
    using jpeg_loop_v7_tally [of pf w lib 1 "input_files a0" "\<lparr>converted = 0, errors = 0\<rparr>" a0]
      filter_split_sum [of "path_exists w" "jpeg_raises pf w lib (output_dir a0)" "input_files a0"]
    by (simp add: r_def a0(1))
  have d: "dialogs a' = dialogs a @ [Show_info ''Done'' [converted (fst r), errors (fst r)]]"
    using jpeg_loop_v7_fields [of pf w lib 1 "input_files a0" "\<lparr>converted = 0, errors = 0\<rparr>" a0] a0(2)
    by (simp add: a'_def r_def)
  have pm: "progress_max a' = length (input_files a)"
    using jpeg_loop_v7_fields [of pf w lib 1 "input_files a0" "\<lparr>converted = 0, errors = 0\<rparr>" a0] a0(3)
    by (simp add: a'_def r_def)
  have po: "pools a' = pools a @ [(1, 1)]"
    using jpeg_loop_v7_fields [of pf w lib 1 "input_files a0" "\<lparr>converted = 0, errors = 0\<rparr>" a0] a0(4)
    by (simp add: a'_def r_def)
  have pv: "progress_var a' = length (input_files a)"
    using jpeg_loop_v7_progress [of pf w lib 1 "input_files a0" "\<lparr>converted = 0, errors = 0\<rparr>" a0]
      assms(1) a0(1)
    by (simp add: a'_def r_def)
  have ph: "progress_hist a' = progress_hist a @ [0 ..< length (input_files a) + 1]"
    using jpeg_loop_v7_progress [of pf w lib 1 "input_files a0" "\<lparr>converted = 0, errors = 0\<rparr>" a0]
      a0(1) a0(5) upt_from_0 [of "length (input_files a)"]
    by (simp add: a'_def r_def)
  show ?thesis
    using eq d tally pm pv ph po by blast
qed

lemma save_jpeg_v8_run:
  assumes "input_files a \<noteq> []" "output_dir a \<noteq> []" "makedirs w (output_dir a) = None"
  shows "\<exists>a'. save_jpeg_v8 pf w lib a = Inr a' \<and> pools a' = pools a @ [(1, 1)]"
  using save_jpeg_v8_started [OF assms, of pf lib]
  by (simp add: save_jpeg_worker_v8_fields)


lemma create_deepzoom_v7_run:
  assumes "has_deepzoom w" "input_files a \<noteq> []" "output_dir a \<noteq> []"
    "makedirs w (output_dir a) = None" "mset completion = mset (input_files a)"
  shows "\<exists>a' c s e. create_deepzoom_v7 pf w completion a = Inr a'
           \<and> dialogs a' = dialogs a @ [Show_info ''DeepZoom Complete'' [c, s, e]]
           \<and> c + s + e = length (input_files a)
           \<and> progress_max a' = length (input_files a)
           \<and> progress_var a' = length (input_files a)
           \<and> progress_hist a' = progress_hist a @ [0 ..< length (input_files a) + 1]
           \<and> pools a' = pools a @ [(1, 1), (auto_workers_v7 w (input_files a) (output_dir a),
                                      length (input_files a))]"
proof -
  define k where "k = auto_workers_v7 w (input_files a) (output_dir a)"
  define a0 where "a0 = submit_pool 1 1 (print_line (Log_auto_workers k)
               ((set_progress 0 (a\<lparr>progress_max := length (input_files a)\<rparr>))\<lparr>busy := True\<rparr>))"
  define a2 where "a2 = submit_pool k (length (input_files a0)) (print_line (Log_workers k) a0)"
  define rs where "rs = map (job_v7 pf w (output_dir a0)) completion"
  define r where "r = dz_collect_v7 rs 0 \<lparr>created = 0, skipped = 0, dz_errors = 0\<rparr> a2"
  define a' where "a' = show_dialog
         (Show_info ''DeepZoom Complete'' [created (fst r), skipped (fst r), dz_errors (fst r)])
         ((print_line (Log_done [created (fst r), skipped (fst r), dz_errors (fst r)]) (snd r))
          \<lparr>status_dz := Some (created (fst r)), busy := False\<rparr>)"
  have len: "length rs = length (input_files a)"
    using assms(5) mset_eq_length [of completion "input_files a"] by (simp add: rs_def)
  then have ne: "rs \<noteq> []"
    using assms(2) by auto
  have "create_deepzoom_v7 pf w completion a = Inr (snd (run_parallel_v7 pf w k completion a0))"
    unfolding k_def a0_def using assms(1-4) by (rule create_deepzoom_v7_started)
  moreover have "snd (run_parallel_v7 pf w k completion a0) = a'"
    by (simp add: run_parallel_v7_eq Let_def a'_def r_def rs_def a2_def)
  ultimately have eq: "create_deepzoom_v7 pf w completion a = Inr a'"
    by simp
  have a2: "dialogs a2 = dialogs a" "progress_max a2 = length (input_files a)"
    "pools a2 = pools a @ [(1, 1), (k, length (input_files a))]"
    "progress_hist a2 = progress_hist a @ [0]"
    by (simp_all add: a2_def a0_def)
  have tally: "created (fst r) + skipped (fst r) + dz_errors (fst r) = length (input_files a)"
    using dz_collect_v7_tally [of rs 0 "\<lparr>created = 0, skipped = 0, dz_errors = 0\<rparr>" a2]
      status_split_sum [of rs] len
    by (simp add: r_def)
  have d: "dialogs a' = dialogs a
             @ [Show_info ''DeepZoom Complete'' [created (fst r), skipped (fst r), dz_errors (fst r)]]"
    using dz_collect_v7_fields [of rs 0 "\<lparr>created = 0, skipped = 0, dz_errors = 0\<rparr>" a2] a2(1)
    by (simp add: a'_def r_def)
  have pm: "progress_max a' = length (input_files a)"
    using dz_collect_v7_fields [of rs 0 "\<lparr>created = 0, skipped = 0, dz_errors = 0\<rparr>" a2] a2(2)
    by (simp add: a'_def r_def)
  have po: "pools a' = pools a @ [(1, 1), (k, length (input_files a))]"
    using dz_collect_v7_fields [of rs 0 "\<lparr>created = 0, skipped = 0, dz_errors = 0\<rparr>" a2] a2(3)
    by (simp add: a'_def r_def)
  have pv: "progress_var a' = length (input_files a)"
    using dz_collect_v7_progress [of rs 0 "\<lparr>created = 0, skipped = 0, dz_errors = 0\<rparr>" a2] ne len
    by (simp add: a'_def r_def)
  have ph: "progress_hist a' = progress_hist a @ [0 ..< length (input_files a) + 1]"
    using dz_collect_v7_progress [of rs 0 "\<lparr>created = 0, skipped = 0, dz_errors = 0\<rparr>" a2] len a2(4)
      upt_from_0 [of "length (input_files a)"]
    by (simp add: a'_def r_def)
  show ?thesis
    using eq d tally pm pv ph po unfolding k_def by blast
qed

lemma create_deepzoom_v8_run:
  assumes "has_deepzoom w" "input_files a \<noteq> []" "output_dir a \<noteq> []"
    "makedirs w (output_dir a) = None"
  shows "\<exists>a'. create_deepzoom_v8 pf w a = Inr a'
           \<and> progress_max a' = length (input_files a)
           \<and> progress_var a' = length (input_files a)
           \<and> progress_hist a' = progress_hist a @ [0 ..< length (input_files a) + 1]
           \<and> pools a' = pools a @ [(1, 1)]"
proof -
  let ?a0 = "submit_pool 1 1 (set_progress 0 (a\<lparr>progress_max := length (input_files a)\<rparr>))"
  have eq: "create_deepzoom_v8 pf w a = Inr (snd (create_deepzoom_worker_v8 pf w ?a0))"
    using assms by (rule create_deepzoom_v8_started)
  show ?thesis
    using eq create_deepzoom_worker_v8_fields [of pf w ?a0] assms(2)
      upt_from_0 [of "length (input_files a)"]
    by simp
qed





section \<open>Missing files\<close>













section \<open>The missing backend\<close>

text \<open>
  The function \<open>create_deepzoom\<close>, called with the flag false, shows one error dialog
  and returns the state otherwise unchanged, in both versions.
\<close>

lemma create_deepzoom_flag_false:
  assumes "\<not> has_deepzoom w"
  shows "create_deepzoom_v7 pf w completion a
           = Inr (a\<lparr>dialogs := dialogs a @ [Show_error ''DeepZoom not available'']\<rparr>)"
    and "create_deepzoom_v8 pf w a = Inr (a\<lparr>dialogs := dialogs a @ [Show_error ''Missing'']\<rparr>)"
  using assms by (simp_all add: create_deepzoom_v7_def create_deepzoom_v8_def show_dialog_def)

text \<open>
  The flag is false only when the import of the backend has failed, and then an
  interpreter that evaluates annotations at the \<open>def\<close> does not finish loading the
  module: no button is ever clicked. Where annotations are evaluated on demand the
  module loads, and the click shows the dialog.
\<close>

lemma load_module_backend_missing:
  assumes "\<not> has_deepzoom w" and "eager_annotations w"
  shows "load_module w = Inl (ustr ''NameError: name ImageCreator is not defined'')"
    and "run_create_deepzoom_v7 pf w files folder completion
           = Inl (ustr ''NameError: name ImageCreator is not defined'')"
    and "run_create_deepzoom_v8 pf w files folder
           = Inl (ustr ''NameError: name ImageCreator is not defined'')"
  using assms
  by (simp_all add: load_module_def run_create_deepzoom_v7_def run_create_deepzoom_v8_def)

lemma load_module_flag_false_iff:
  "(\<exists>a. load_module w = Inr a) \<and> \<not> has_deepzoom w
   \<longleftrightarrow> \<not> has_deepzoom w \<and> \<not> eager_annotations w"
  by (auto simp add: load_module_def)

lemma run_create_deepzoom_deferred:
  assumes "\<not> has_deepzoom w" and "\<not> eager_annotations w"
  shows "run_create_deepzoom_v7 pf w files folder completion
           = Inr (initial_app\<lparr>input_files := files, output_dir := folder,
                               dialogs := [Show_error ''DeepZoom not available'']\<rparr>)"
    and "run_create_deepzoom_v8 pf w files folder
           = Inr (initial_app\<lparr>input_files := files, output_dir := folder,
                               dialogs := [Show_error ''Missing'']\<rparr>)"
  using assms
  by (simp_all add: load_module_def run_create_deepzoom_v7_def run_create_deepzoom_v8_def
        create_deepzoom_flag_false initial_app_def)

text \<open>
  C4. When the DeepZoom backend is unavailable, invoking the DeepZoom batch operation
  should report one capability-missing condition, run no job and leave the progress
  state as it was. On a host without the backend whose interpreter evaluates
  annotations at the \<open>def\<close>, neither version gets that far: the flag is false, loading
  the module ends in \<open>NameError\<close>, and the run up to the click on the DeepZoom button
  ends in that exception, with no dialog shown.
\<close>

theorem C4_module_load_fails:
  "import_deepzoom no_backend_world = Some (ustr ''No module named deepzoom'')
   \<and> eager_annotations no_backend_world
   \<and> \<not> has_deepzoom no_backend_world
   \<and> load_module no_backend_world = Inl (ustr ''NameError: name ImageCreator is not defined'')
   \<and> run_create_deepzoom_v7 posixpath no_backend_world
        [ustr ''imgs/a.tif'', ustr ''imgs/b.tiff''] (ustr ''out'')
        [ustr ''imgs/b.tiff'', ustr ''imgs/a.tif'']
      = Inl (ustr ''NameError: name ImageCreator is not defined'')
   \<and> run_create_deepzoom_v8 posixpath no_backend_world
        [ustr ''imgs/a.tif'', ustr ''imgs/b.tiff''] (ustr ''out'')
      = Inl (ustr ''NameError: name ImageCreator is not defined'')"
proof -
  have i: "import_deepzoom no_backend_world = Some (ustr ''No module named deepzoom'')"
    by (simp add: no_backend_world_def)
  have e: "eager_annotations no_backend_world"
    by (simp add: no_backend_world_def demo_world_def)
  have h: "\<not> has_deepzoom no_backend_world"
    by (simp add: has_deepzoom_def i)
  show ?thesis
    using i e h load_module_backend_missing [OF h e] by (intro conjI)
qed

section \<open>Task slots\<close>

lemma save_jpeg_v7_world:
  "save_jpeg_v7 pf (w\<lparr>abspath := f, cpu_count := c\<rparr>) lib a = save_jpeg_v7 pf w lib a"
  by (simp add: save_jpeg_v7_def save_jpeg_worker_v7_def jpeg_loop_v7_world Let_def
        split: option.splits)

lemma save_jpeg_v8_world:
  "save_jpeg_v8 pf (w\<lparr>abspath := f, cpu_count := c\<rparr>) lib a = save_jpeg_v8 pf w lib a"
  by (simp add: save_jpeg_v8_def save_jpeg_worker_v8_def jpeg_loop_v8_world Let_def
        split: option.splits)

lemma create_deepzoom_v8_world:
  "create_deepzoom_v8 pf (w\<lparr>cpu_count := c\<rparr>) a = create_deepzoom_v8 pf w a"
  by (simp add: create_deepzoom_v8_def create_deepzoom_worker_v8_def dz_loop_v8_world Let_def
        has_deepzoom_def split: option.splits)

text \<open>
  C5, as stated, fails on version 8, whose DeepZoom batch never calls the selector and
  converts its files in one loop on the single slot of its driver: for four local files
  on a host with 8 cores the selector answers 4, and the only pool created has one
  worker and one task.
\<close>

theorem C5_counterexample:
  "auto_workers_v8 demo_world
     [ustr ''imgs/a.tif'', ustr ''imgs/b.tiff'', ustr ''imgs/bad.tif'', ustr ''imgs/missing.tif'']
     (ustr ''out'') = 4
   \<and> (\<exists>a'. create_deepzoom_v8 posixpath demo_world
              (demo_app [ustr ''imgs/a.tif'', ustr ''imgs/b.tiff'', ustr ''imgs/bad.tif'',
                         ustr ''imgs/missing.tif''])
            = Inr a'
          \<and> pools a' = [(1, 1)])"
proof -
  let ?fs = "[ustr ''imgs/a.tif'', ustr ''imgs/b.tiff'', ustr ''imgs/bad.tif'', ustr ''imgs/missing.tif'']"
  have s: "auto_workers_v8 demo_world ?fs (ustr ''out'') = 4"
    by (simp add: auto_workers_v8_def cores_or_4_def is_unc_def demo_world_def startswith_def ustr_def)
  have h: "has_deepzoom demo_world" "input_files (demo_app ?fs) \<noteq> []"
    "output_dir (demo_app ?fs) \<noteq> []" "makedirs demo_world (output_dir (demo_app ?fs)) = None"
    by (simp_all add: has_deepzoom_def demo_world_def demo_app_def ustr_def)
  have p: "pools (demo_app ?fs) = []"
    by (simp add: demo_app_def)
  from create_deepzoom_v8_run [OF h, of posixpath] p
  have "\<exists>a'. create_deepzoom_v8 posixpath demo_world (demo_app ?fs) = Inr a' \<and> pools a' = [(1, 1)]"
    by auto
  with s show ?thesis by (intro conjI)
qed

text \<open>
  C5, amended. In both versions the JPEG batch runs on one pool of one worker with one
  task, whose loop handles the files one after the other in selection order (the state
  after a prefix of the selection is the state from which the rest is handled), and it
  does not consult the selector: its result does not depend on what \<open>abspath\<close> and
  \<open>cpu_count\<close> answer. The DeepZoom batch of version 7 adds to the driver's pool a pool
  of as many workers as the selector answers, with one task for each file. The DeepZoom
  batch of version 8 has the driver's pool only, handles its files one after the other
  in selection order, and does not depend on \<open>cpu_count\<close>.
\<close>

theorem C5_task_slots:
  assumes "input_files a \<noteq> []" and "output_dir a \<noteq> []" and "makedirs w (output_dir a) = None"
  shows "(\<exists>a'. save_jpeg_v7 pf w lib a = Inr a' \<and> pools a' = pools a @ [(1, 1)])
    \<and> (\<exists>a'. save_jpeg_v8 pf w lib a = Inr a' \<and> pools a' = pools a @ [(1, 1)])
    \<and> save_jpeg_v7 pf (w\<lparr>abspath := f, cpu_count := c\<rparr>) lib a = save_jpeg_v7 pf w lib a
    \<and> save_jpeg_v8 pf (w\<lparr>abspath := f, cpu_count := c\<rparr>) lib a = save_jpeg_v8 pf w lib a
    \<and> jpeg_loop_v7 pf w lib i (xs @ ys) t a =
        jpeg_loop_v7 pf w lib (i + length xs) ys
          (fst (jpeg_loop_v7 pf w lib i xs t a)) (snd (jpeg_loop_v7 pf w lib i xs t a))
    \<and> jpeg_loop_v8 pf w lib i (xs @ ys) t a =
        jpeg_loop_v8 pf w lib (i + length xs) ys
          (fst (jpeg_loop_v8 pf w lib i xs t a)) (snd (jpeg_loop_v8 pf w lib i xs t a))
    \<and> (has_deepzoom w \<and> mset completion = mset (input_files a) \<longrightarrow>
          (\<exists>a'. create_deepzoom_v7 pf w completion a = Inr a'
             \<and> pools a' = pools a @ [(1, 1), (auto_workers_v7 w (input_files a) (output_dir a),
                                        length (input_files a))]))
    \<and> (has_deepzoom w \<longrightarrow>
          (\<exists>a'. create_deepzoom_v8 pf w a = Inr a' \<and> pools a' = pools a @ [(1, 1)]))
    \<and> create_deepzoom_v8 pf (w\<lparr>cpu_count := c\<rparr>) a = create_deepzoom_v8 pf w a
    \<and> dz_loop_v8 pf w i (xs @ ys) n a =
        dz_loop_v8 pf w (i + length xs) ys
          (fst (dz_loop_v8 pf w i xs n a)) (snd (dz_loop_v8 pf w i xs n a))"
proof -
  have j7: "\<exists>a'. save_jpeg_v7 pf w lib a = Inr a' \<and> pools a' = pools a @ [(1, 1)]"
    using save_jpeg_v7_run [OF assms, of pf lib] by blast
  have j8: "\<exists>a'. save_jpeg_v8 pf w lib a = Inr a' \<and> pools a' = pools a @ [(1, 1)]"
    using assms by (rule save_jpeg_v8_run)
  have d7: "has_deepzoom w \<and> mset completion = mset (input_files a) \<longrightarrow>
          (\<exists>a'. create_deepzoom_v7 pf w completion a = Inr a'
             \<and> pools a' = pools a @ [(1, 1), (auto_workers_v7 w (input_files a) (output_dir a),
                                        length (input_files a))])"
  proof
    assume "has_deepzoom w \<and> mset completion = mset (input_files a)"
    then have "has_deepzoom w" and "mset completion = mset (input_files a)"
      by simp_all
    from create_deepzoom_v7_run [OF this(1) assms this(2), of pf]
    show "\<exists>a'. create_deepzoom_v7 pf w completion a = Inr a'
             \<and> pools a' = pools a @ [(1, 1), (auto_workers_v7 w (input_files a) (output_dir a),
                                        length (input_files a))]"
      by blast
  qed
  have d8: "has_deepzoom w \<longrightarrow>
          (\<exists>a'. create_deepzoom_v8 pf w a = Inr a' \<and> pools a' = pools a @ [(1, 1)])"
  proof
    assume "has_deepzoom w"
    from create_deepzoom_v8_run [OF this assms, of pf]
    show "\<exists>a'. create_deepzoom_v8 pf w a = Inr a' \<and> pools a' = pools a @ [(1, 1)]"
      by blast
  qed
  show ?thesis
    using j7 j8 d7 d8
      save_jpeg_v7_world [where pf = pf and w = w and f = f and c = c and lib = lib and a = a]
      save_jpeg_v8_world [where pf = pf and w = w and f = f and c = c and lib = lib and a = a]
      jpeg_loop_v7_append [of pf w lib i xs ys t a] jpeg_loop_v8_append [of pf w lib i xs ys t a]
      create_deepzoom_v8_world [where pf = pf and w = w and c = c and a = a]
      dz_loop_v8_append [of pf w i xs ys n a]
    by (intro conjI)
qed

theorem C5_task_slots_witness:
  "input_files (demo_app [ustr ''imgs/a.tif'', ustr ''imgs/b.tiff'', ustr ''imgs/bad.tif'']) \<noteq> []
   \<and> output_dir (demo_app [ustr ''imgs/a.tif'', ustr ''imgs/b.tiff'', ustr ''imgs/bad.tif'']) \<noteq> []
   \<and> makedirs demo_world
        (output_dir (demo_app [ustr ''imgs/a.tif'', ustr ''imgs/b.tiff'', ustr ''imgs/bad.tif''])) = None
   \<and> has_deepzoom demo_world
   \<and> mset [ustr ''imgs/bad.tif'', ustr ''imgs/b.tiff'', ustr ''imgs/a.tif'']
      = mset (input_files (demo_app [ustr ''imgs/a.tif'', ustr ''imgs/b.tiff'', ustr ''imgs/bad.tif'']))
   \<and> auto_workers_v7 demo_world [ustr ''imgs/a.tif'', ustr ''imgs/b.tiff'', ustr ''imgs/bad.tif'']
        (ustr ''out'') = 3
   \<and> (\<exists>a'. save_jpeg_v7 posixpath demo_world demo_pil
               (demo_app [ustr ''imgs/a.tif'', ustr ''imgs/b.tiff'', ustr ''imgs/bad.tif'']) = Inr a'
          \<and> pools a' = [(1, 1)])
   \<and> (\<exists>a'. save_jpeg_v8 posixpath demo_world demo_pil
               (demo_app [ustr ''imgs/a.tif'', ustr ''imgs/b.tiff'', ustr ''imgs/bad.tif'']) = Inr a'
          \<and> pools a' = [(1, 1)])
   \<and> (\<exists>a'. create_deepzoom_v7 posixpath demo_world
               [ustr ''imgs/bad.tif'', ustr ''imgs/b.tiff'', ustr ''imgs/a.tif'']
               (demo_app [ustr ''imgs/a.tif'', ustr ''imgs/b.tiff'', ustr ''imgs/bad.tif'']) = Inr a'
          \<and> pools a' = [(1, 1), (3, 3)])
   \<and> (\<exists>a'. create_deepzoom_v8 posixpath demo_world
               (demo_app [ustr ''imgs/a.tif'', ustr ''imgs/b.tiff'', ustr ''imgs/bad.tif'']) = Inr a'
          \<and> pools a' = [(1, 1)])"
proof -
  let ?fs = "[ustr ''imgs/a.tif'', ustr ''imgs/b.tiff'', ustr ''imgs/bad.tif'']"
  let ?co = "[ustr ''imgs/bad.tif'', ustr ''imgs/b.tiff'', ustr ''imgs/a.tif'']"
  have h: "input_files (demo_app ?fs) \<noteq> []" "output_dir (demo_app ?fs) \<noteq> []"
    "makedirs demo_world (output_dir (demo_app ?fs)) = None"
    by (simp_all add: demo_app_def demo_world_def ustr_def)
  have z: "has_deepzoom demo_world"
    by (simp add: has_deepzoom_def demo_world_def)
  have p: "mset ?co = mset (input_files (demo_app ?fs))"
    by (simp add: demo_app_def)
  have f: "input_files (demo_app ?fs) = ?fs" "output_dir (demo_app ?fs) = ustr ''out''"
    "pools (demo_app ?fs) = []"
    by (simp_all add: demo_app_def)
  have k: "auto_workers_v7 demo_world ?fs (ustr ''out'') = 3"
    by (simp add: auto_workers_v7_def cores_or_4_def is_unc_def demo_world_def startswith_def ustr_def)
  note c5 = C5_task_slots [OF h, where pf = posixpath and lib = demo_pil and completion = ?co
      and f = "abspath demo_world" and c = None and i = 1 and xs = "[]" and ys = "[]"
      and t = "\<lparr>converted = 0, errors = 0\<rparr>" and n = 0]
  from c5 obtain a1 where a1: "save_jpeg_v7 posixpath demo_world demo_pil (demo_app ?fs) = Inr a1"
      "pools a1 = pools (demo_app ?fs) @ [(1, 1)]"
    by blast
  then have j7: "\<exists>a'. save_jpeg_v7 posixpath demo_world demo_pil (demo_app ?fs) = Inr a'
          \<and> pools a' = [(1, 1)]"
    by (simp add: f)
  from c5 obtain a2 where a2: "save_jpeg_v8 posixpath demo_world demo_pil (demo_app ?fs) = Inr a2"
      "pools a2 = pools (demo_app ?fs) @ [(1, 1)]"
    by blast
  then have j8: "\<exists>a'. save_jpeg_v8 posixpath demo_world demo_pil (demo_app ?fs) = Inr a'
          \<and> pools a' = [(1, 1)]"
    by (simp add: f)
  from c5 z p obtain a3 where a3: "create_deepzoom_v7 posixpath demo_world ?co (demo_app ?fs) = Inr a3"
      "pools a3 = pools (demo_app ?fs)
         @ [(1, 1), (auto_workers_v7 demo_world (input_files (demo_app ?fs)) (output_dir (demo_app ?fs)),
                     length (input_files (demo_app ?fs)))]"
    by blast
  then have d7: "\<exists>a'. create_deepzoom_v7 posixpath demo_world ?co (demo_app ?fs) = Inr a'
          \<and> pools a' = [(1, 1), (3, 3)]"
    by (simp add: f k)
  from c5 z obtain a4 where a4: "create_deepzoom_v8 posixpath demo_world (demo_app ?fs) = Inr a4"
      "pools a4 = pools (demo_app ?fs) @ [(1, 1)]"
    by blast
  then have d8: "\<exists>a'. create_deepzoom_v8 posixpath demo_world (demo_app ?fs) = Inr a'
          \<and> pools a' = [(1, 1)]"
    by (simp add: f)
  show ?thesis
    using h z p k j7 j8 d7 d8 by (intro conjI)
qed

end
